theory Spec2Isabelle
  imports Main
begin

section \<open>The host object model\<close>

text \<open>
  The bindings never own an object: every operation is one of the primitives of the
  bridge package (\<^verbatim>\<open>syscall/js\<close> for \<^verbatim>\<open>src/v2\<close>, GopherJS's \<^verbatim>\<open>js\<close> package for
  \<^verbatim>\<open>src/dom.go\<close> and \<^verbatim>\<open>src/unnamed/part_001\<close>) applied to a JavaScript value.
  A JavaScript value is \<^verbatim>\<open>null\<close>, \<^verbatim>\<open>undefined\<close>, a primitive, or a reference to an
  object of the host (functions, and so constructors, are objects as well).
\<close>

datatype jsval = Null | Undefined | JBool bool | JNum int | JStr string | Ref nat

text \<open>
  The host is whatever the browser provides. It is a parameter of every function
  below and is left arbitrary in every theorem:
  \<^item> \<open>props h v p\<close> is the value of property \<open>p\<close> of \<open>v\<close> (prototype chain
    included), \<open>Undefined\<close> where the property is absent;
  \<^item> \<open>item_of h v i\<close> is the result of the method call \<^verbatim>\<open>v.item(i)\<close>, \<open>None\<close> where
    the call throws (no such method on \<open>v\<close>);
  \<^item> \<open>elems h v i\<close> is the subscript \<^verbatim>\<open>v[i]\<close>;
  \<^item> \<open>render h v\<close> is the text the bridge gives for a value that is not a string
    (\<^verbatim>\<open>"<undefined>"\<close>, \<^verbatim>\<open>"<object>"\<close>, ... for \<^verbatim>\<open>syscall/js\<close>; JavaScript's string
    conversion for GopherJS);
  \<^item> \<open>coerce_int h v\<close> is the integer JavaScript's type conversion gives for a value
    that is not a number.
\<close>

record host =
  props :: "jsval \<Rightarrow> string \<Rightarrow> jsval"
  item_of :: "jsval \<Rightarrow> int \<Rightarrow> jsval option"
  elems :: "jsval \<Rightarrow> int \<Rightarrow> jsval"
  render :: "jsval \<Rightarrow> string"
  coerce_int :: "jsval \<Rightarrow> int"

text \<open>
  A Go panic is a value. \<open>HostError\<close> is a panic raised by the bridge or by the host
  (a JavaScript exception, or a \<^verbatim>\<open>ValueError\<close> of \<^verbatim>\<open>syscall/js\<close>); the others are the
  panics of the bindings themselves: the \<^verbatim>\<open>"Unsupported HTML element type: "\<close> panic
  with the text appended to it, a failed type assertion \<^verbatim>\<open>x.(*T)\<close>, and
  \<^verbatim>\<open>"no way to SetString on this TokenList"\<close>.
\<close>

datatype panic = HostError | UnsupportedElement string | TypeAssertion | NoSetString

definition bnd :: "panic + 'a \<Rightarrow> ('a \<Rightarrow> panic + 'b) \<Rightarrow> panic + 'b" where
  "bnd m f = (case m of Inl e \<Rightarrow> Inl e | Inr x \<Rightarrow> f x)"

text \<open>
  \<^verbatim>\<open>Value.Get\<close> of \<^verbatim>\<open>syscall/js\<close> panics unless the receiver is an object;
  GopherJS's \<^verbatim>\<open>Get\<close> is JavaScript's property access, which throws on
  \<^verbatim>\<open>null\<close> and \<^verbatim>\<open>undefined\<close> only.
\<close>

definition Get :: "host \<Rightarrow> jsval \<Rightarrow> string \<Rightarrow> panic + jsval" where
  "Get h v p = (case v of Ref r \<Rightarrow> Inr (props h v p) | _ \<Rightarrow> Inl HostError)"

definition Get_gopherjs :: "host \<Rightarrow> jsval \<Rightarrow> string \<Rightarrow> panic + jsval" where
  "Get_gopherjs h v p =
     (if v = Null \<or> v = Undefined then Inl HostError else Inr (props h v p))"

text \<open>\<^verbatim>\<open>js.Global()\<close> is the object at reference 0.\<close>

definition Global :: jsval where
  "Global = Ref 0"

definition Global_Get :: "host \<Rightarrow> string \<Rightarrow> jsval" where
  "Global_Get h n = props h Global n"

text \<open>
  \<^verbatim>\<open>Value.Int\<close> of \<^verbatim>\<open>syscall/js\<close> panics unless the value is a number; GopherJS's
  \<^verbatim>\<open>Int\<close> converts. \<^verbatim>\<open>Value.String\<close> (and GopherJS's \<^verbatim>\<open>Str\<close>/\<^verbatim>\<open>String\<close>) never
  panics. Host numbers are taken to be integers.
\<close>

definition Int_of :: "jsval \<Rightarrow> panic + int" where
  "Int_of v = (case v of JNum n \<Rightarrow> Inr n | _ \<Rightarrow> Inl HostError)"

definition Int_gopherjs :: "host \<Rightarrow> jsval \<Rightarrow> int" where
  "Int_gopherjs h v = (case v of JNum n \<Rightarrow> n | _ \<Rightarrow> coerce_int h v)"

definition String_of :: "host \<Rightarrow> jsval \<Rightarrow> string" where
  "String_of h v = (case v of JStr s \<Rightarrow> s | _ \<Rightarrow> render h v)"

text \<open>
  \<^verbatim>\<open>Value.Length\<close> reads the \<^verbatim>\<open>length\<close> property and \<^verbatim>\<open>Value.Index\<close> subscripts; both
  panic unless the receiver is an object. \<^verbatim>\<open>Call("item", i)\<close> panics when the
  receiver is not an object or the call throws.
\<close>

definition Length :: "host \<Rightarrow> jsval \<Rightarrow> panic + int" where
  "Length h v =
     (case v of
        Ref r \<Rightarrow> Inr (case props h v ''length'' of JNum n \<Rightarrow> n | w \<Rightarrow> coerce_int h w)
      | _ \<Rightarrow> Inl HostError)"

definition Index :: "host \<Rightarrow> jsval \<Rightarrow> int \<Rightarrow> panic + jsval" where
  "Index h v i = (case v of Ref r \<Rightarrow> Inr (elems h v i) | _ \<Rightarrow> Inl HostError)"

definition Call_item :: "host \<Rightarrow> jsval \<Rightarrow> int \<Rightarrow> panic + jsval" where
  "Call_item h v i =
     (case v of
        Ref r \<Rightarrow> (case item_of h v i of Some x \<Rightarrow> Inr x | None \<Rightarrow> Inl HostError)
      | _ \<Rightarrow> Inl HostError)"

definition Call_item_gopherjs :: "host \<Rightarrow> jsval \<Rightarrow> int \<Rightarrow> panic + jsval" where
  "Call_item_gopherjs h v i =
     (if v = Null \<or> v = Undefined then Inl HostError
      else (case item_of h v i of Some x \<Rightarrow> Inr x | None \<Rightarrow> Inl HostError))"

section \<open>Facades\<close>

text \<open>
  Every concrete element type of the bindings embeds \<^verbatim>\<open>*BasicHTMLElement\<close>, which
  embeds \<^verbatim>\<open>*BasicElement\<close>, which embeds \<^verbatim>\<open>*BasicNode\<close>, which holds the handle; the
  further layers some types carry (\<^verbatim>\<open>URLUtils\<close>, \<^verbatim>\<open>HTMLMediaElement\<close>) wrap the same
  handle. A facade is therefore its concrete Go type together with the handle:
  \<open>Concrete T v\<close> is the value \<^verbatim>\<open>&T{BasicHTMLElement: el, ...}\<close> for the element type
  named \<open>T\<close>, and \<open>ConcreteEvent T v\<close> the value \<^verbatim>\<open>&T{ev}\<close> for the event type named
  \<open>T\<close>. A Go interface value that is \<^verbatim>\<open>nil\<close> is \<open>None\<close>.
\<close>

datatype facade = Text jsval | BasicHTMLElement jsval | Concrete string jsval

datatype event = BasicEvent jsval | ConcreteEvent string jsval

text \<open>\<^verbatim>\<open>BasicNode.Underlying\<close>: the method of the base Node capability set that every
  facade inherits.\<close>

fun Underlying :: "facade \<Rightarrow> jsval" where
  "Underlying (Text v) = v"
| "Underlying (BasicHTMLElement v) = v"
| "Underlying (Concrete k v) = v"

fun Underlying_event :: "event \<Rightarrow> jsval" where
  "Underlying_event (BasicEvent v) = v"
| "Underlying_event (ConcreteEvent k v) = v"

section \<open>Dispatch tables\<close>

text \<open>
  A Go \<^verbatim>\<open>switch c { case e1: ... case e2: ... default: ... }\<close> takes the first case
  whose expression equals \<open>c\<close>, in source order.
\<close>

definition switch_on :: "'t \<Rightarrow> ('t \<times> 'r) list \<Rightarrow> 'r \<Rightarrow> 'r" where
  "switch_on c cs dflt = (case find (\<lambda>(t, r). c = t) cs of Some (t, r) \<Rightarrow> r | None \<Rightarrow> dflt)"

text \<open>
  In every case of \<^verbatim>\<open>wrapHTMLElement\<close> and \<^verbatim>\<open>wrapEvent\<close> the name looked up on the
  global object is the name of the Go type returned, so a dispatch table is the list of
  these names in source order. \<^verbatim>\<open>src/v2/dom_go113.go\<close> ends \<^verbatim>\<open>wrapHTMLElement\<close> with
  a case for \<^verbatim>\<open>HTMLElement\<close> that returns \<^verbatim>\<open>el\<close> itself.
\<close>

definition html_types :: "string list" where
  "html_types = [
     ''HTMLAnchorElement'', ''HTMLAppletElement'', ''HTMLAreaElement'', ''HTMLAudioElement'',
     ''HTMLBaseElement'', ''HTMLBodyElement'', ''HTMLBRElement'', ''HTMLButtonElement'',
     ''HTMLCanvasElement'', ''HTMLDataElement'', ''HTMLDataListElement'',
     ''HTMLDirectoryElement'', ''HTMLDivElement'', ''HTMLDListElement'', ''HTMLEmbedElement'',
     ''HTMLFieldSetElement'', ''HTMLFontElement'', ''HTMLFormElement'', ''HTMLFrameElement'',
     ''HTMLFrameSetElement'', ''HTMLHeadElement'', ''HTMLHeadingElement'',
     ''HTMLHtmlElement'', ''HTMLHRElement'', ''HTMLIFrameElement'', ''HTMLImageElement'',
     ''HTMLInputElement'', ''HTMLKeygenElement'', ''HTMLLabelElement'', ''HTMLLegendElement'',
     ''HTMLLIElement'', ''HTMLLinkElement'', ''HTMLMapElement'', ''HTMLMediaElement'',
     ''HTMLMenuElement'', ''HTMLMetaElement'', ''HTMLMeterElement'', ''HTMLModElement'',
     ''HTMLObjectElement'', ''HTMLOListElement'', ''HTMLOptGroupElement'',
     ''HTMLOptionElement'', ''HTMLOutputElement'', ''HTMLParagraphElement'',
     ''HTMLParamElement'', ''HTMLPreElement'', ''HTMLProgressElement'', ''HTMLQuoteElement'',
     ''HTMLScriptElement'', ''HTMLSelectElement'', ''HTMLSourceElement'', ''HTMLSpanElement'',
     ''HTMLStyleElement'', ''HTMLTableElement'', ''HTMLTableCaptionElement'',
     ''HTMLTableCellElement'', ''HTMLTableDataCellElement'', ''HTMLTableHeaderCellElement'',
     ''HTMLTableColElement'', ''HTMLTableRowElement'', ''HTMLTableSectionElement'',
     ''HTMLTemplateElement'', ''HTMLTextAreaElement'', ''HTMLTimeElement'',
     ''HTMLTitleElement'', ''HTMLTrackElement'', ''HTMLUListElement'', ''HTMLUnknownElement'',
     ''HTMLVideoElement'']"

definition html_cases :: "(string \<times> (jsval \<Rightarrow> facade)) list" where
  "html_cases = map (\<lambda>n. (n, Concrete n)) html_types @ [(''HTMLElement'', BasicHTMLElement)]"

text \<open>The cases of \<^verbatim>\<open>wrapHTMLElement\<close> in \<^verbatim>\<open>src/dom.go\<close> and \<^verbatim>\<open>src/unnamed/part_001\<close>.\<close>

definition html_types_v1 :: "string list" where
  "html_types_v1 = [
     ''HTMLAnchorElement'', ''HTMLAppletElement'', ''HTMLAreaElement'', ''HTMLAudioElement'',
     ''HTMLBaseElement'', ''HTMLBodyElement'', ''HTMLBRElement'', ''HTMLButtonElement'',
     ''HTMLCanvasElement'', ''HTMLDataElement'', ''HTMLDataListElement'',
     ''HTMLDirectoryElement'', ''HTMLDivElement'', ''HTMLDListElement'', ''HTMLEmbedElement'',
     ''HTMLFieldSetElement'', ''HTMLFontElement'', ''HTMLFormElement'', ''HTMLFrameElement'',
     ''HTMLFrameSetElement'', ''HTMLHeadElement'', ''HTMLHeadingElement'',
     ''HTMLHtmlElement'', ''HTMLHRElement'', ''HTMLIFrameElement'', ''HTMLImageElement'',
     ''HTMLInputElement'', ''HTMLKeygenElement'', ''HTMLLabelElement'', ''HTMLLegendElement'',
     ''HTMLLIElement'', ''HTMLLinkElement'', ''HTMLMapElement'', ''HTMLMediaElement'',
     ''HTMLMenuElement'', ''HTMLMetaElement'', ''HTMLMeterElement'', ''HTMLModElement'',
     ''HTMLObjectElement'', ''HTMLOListElement'', ''HTMLOptGroupElement'',
     ''HTMLOptionElement'', ''HTMLOutputElement'', ''HTMLParagraphElement'',
     ''HTMLParamElement'', ''HTMLPreElement'', ''HTMLProgressElement'', ''HTMLQuoteElement'',
     ''HTMLScriptElement'', ''HTMLSelectElement'', ''HTMLSourceElement'', ''HTMLSpanElement'',
     ''HTMLStyleElement'', ''HTMLTableElement'', ''HTMLTableCaptionElement'',
     ''HTMLTableCellElement'', ''HTMLTableDataCellElement'', ''HTMLTableHeaderCellElement'',
     ''HTMLTableColElement'', ''HTMLTableRowElement'', ''HTMLTableSectionElement'',
     ''HTMLTextAreaElement'', ''HTMLTimeElement'', ''HTMLTitleElement'', ''HTMLTrackElement'',
     ''HTMLUListElement'', ''HTMLUnknownElement'', ''HTMLVideoElement'']"

definition html_cases_v1 :: "(string \<times> (jsval \<Rightarrow> facade)) list" where
  "html_cases_v1 = map (\<lambda>n. (n, Concrete n)) html_types_v1"

text \<open>The cases of \<^verbatim>\<open>wrapEvent\<close>, the same in every version.\<close>

definition event_types :: "string list" where
  "event_types = [
     ''AnimationEvent'', ''AudioProcessingEvent'', ''BeforeInputEvent'',
     ''BeforeUnloadEvent'', ''BlobEvent'', ''ClipboardEvent'', ''CloseEvent'',
     ''CompositionEvent'', ''CSSFontFaceLoadEvent'', ''CustomEvent'', ''DeviceLightEvent'',
     ''DeviceMotionEvent'', ''DeviceOrientationEvent'', ''DeviceProximityEvent'',
     ''DOMTransactionEvent'', ''DragEvent'', ''EditingBeforeInputEvent'', ''ErrorEvent'',
     ''FocusEvent'', ''GamepadEvent'', ''HashChangeEvent'', ''IDBVersionChangeEvent'',
     ''KeyboardEvent'', ''MediaStreamEvent'', ''MessageEvent'', ''MouseEvent'',
     ''MutationEvent'', ''OfflineAudioCompletionEvent'', ''PageTransitionEvent'',
     ''PointerEvent'', ''PopStateEvent'', ''ProgressEvent'', ''RelatedEvent'',
     ''RTCPeerConnectionIceEvent'', ''SensorEvent'', ''StorageEvent'', ''SVGEvent'',
     ''SVGZoomEvent'', ''TimeEvent'', ''TouchEvent'', ''TrackEvent'', ''TransitionEvent'',
     ''UIEvent'', ''UserProximityEvent'', ''WheelEvent'']"

definition event_cases :: "(string \<times> (jsval \<Rightarrow> event)) list" where
  "event_cases = map (\<lambda>n. (n, ConcreteEvent n)) event_types"

definition by_identity :: "host \<Rightarrow> (string \<times> 'r) list \<Rightarrow> (jsval \<times> 'r) list" where
  "by_identity h cs = map (\<lambda>(n, r). (Global_Get h n, r)) cs"

section \<open>The facade factories of src/v2/dom_go113.go\<close>

definition elementConstructor :: "host \<Rightarrow> jsval \<Rightarrow> panic + jsval" where
  "elementConstructor h v =
     bnd (Get h v ''node'') (\<lambda>n.
       if n \<noteq> Undefined then Get h n ''constructor'' else Get h v ''constructor'')"

definition wrapHTMLElement :: "host \<Rightarrow> jsval \<Rightarrow> panic + facade option" where
  "wrapHTMLElement h v =
     (if v = Null \<or> v = Undefined then Inr None
      else bnd (elementConstructor h v) (\<lambda>c.
        Inr (Some (switch_on c (by_identity h html_cases) BasicHTMLElement v))))"

definition wrapElement :: "host \<Rightarrow> jsval \<Rightarrow> panic + facade option" where
  "wrapElement h v =
     (if v = Null \<or> v = Undefined then Inr None
      else bnd (elementConstructor h v) (\<lambda>c. wrapHTMLElement h v))"

definition wrapNode :: "host \<Rightarrow> jsval \<Rightarrow> panic + facade option" where
  "wrapNode h v =
     (if v = Null \<or> v = Undefined then Inr None
      else bnd (elementConstructor h v) (\<lambda>c.
        if c = Global_Get h ''Text'' then Inr (Some (Text v)) else wrapElement h v))"

text \<open>\<^verbatim>\<open>wrapEvent\<close> of \<^verbatim>\<open>src/unnamed/part_000\<close> (the events file of v2).\<close>

definition wrapEvent :: "host \<Rightarrow> jsval \<Rightarrow> panic + event option" where
  "wrapEvent h v =
     (if v = Null \<or> v = Undefined then Inr None
      else bnd (Get h v ''constructor'') (\<lambda>c.
        Inr (Some (switch_on c (by_identity h event_cases) BasicEvent v))))"

section \<open>The facade factories of src/unnamed/part_001 and src/dom.go\<close>

text \<open>
  \<^verbatim>\<open>src/unnamed/part_001\<close> is the GopherJS binding that compares constructors by
  identity. Its \<^verbatim>\<open>wrapHTMLElement\<close> ends with
  \<^verbatim>\<open>default: panic("Unsupported HTML element type: " + o.Call("toString").Str())\<close>;
  the text appended is JavaScript's string conversion of the handle, \<open>render h v\<close>.
\<close>

definition wrapHTMLElement_v1 :: "host \<Rightarrow> jsval \<Rightarrow> panic + facade option" where
  "wrapHTMLElement_v1 h v =
     (if v = Null \<or> v = Undefined then Inr None
      else bnd (Get_gopherjs h v ''constructor'') (\<lambda>c.
        switch_on c (by_identity h (map (\<lambda>(n, mk). (n, Inr (Some (mk v)))) html_cases_v1))
          (Inl (UnsupportedElement (render h v)))))"

definition wrapElement_v1 :: "host \<Rightarrow> jsval \<Rightarrow> panic + facade option" where
  "wrapElement_v1 h v =
     (if v = Null \<or> v = Undefined then Inr None
      else bnd (Get_gopherjs h v ''constructor'') (\<lambda>c. wrapHTMLElement_v1 h v))"

definition wrapNode_v1 :: "host \<Rightarrow> jsval \<Rightarrow> panic + facade option" where
  "wrapNode_v1 h v =
     (if v = Null \<or> v = Undefined then Inr None
      else bnd (Get_gopherjs h v ''constructor'') (\<lambda>c.
        if c = Global_Get h ''Text'' then Inr (Some (Text v)) else wrapElement_v1 h v))"

definition wrapEvent_v1 :: "host \<Rightarrow> jsval \<Rightarrow> panic + event option" where
  "wrapEvent_v1 h v =
     (if v = Null \<or> v = Undefined then Inr None
      else bnd (Get_gopherjs h v ''constructor'') (\<lambda>c.
        Inr (Some (switch_on c (by_identity h event_cases) BasicEvent v))))"

text \<open>
  \<^verbatim>\<open>src/dom.go\<close> is the oldest binding. It dispatches on the text of
  \<^verbatim>\<open>o.Get("constructor").Get("name").String()\<close> and its \<^verbatim>\<open>wrapHTMLElement\<close> ends with
  \<^verbatim>\<open>default: panic("Unsupported HTML element type: " + name)\<close>.
\<close>

definition constructor_name :: "host \<Rightarrow> jsval \<Rightarrow> panic + string" where
  "constructor_name h v =
     bnd (Get_gopherjs h v ''constructor'') (\<lambda>c.
       bnd (Get_gopherjs h c ''name'') (\<lambda>n. Inr (String_of h n)))"

definition wrapHTMLElement_legacy :: "host \<Rightarrow> jsval \<Rightarrow> panic + facade option" where
  "wrapHTMLElement_legacy h v =
     (if v = Null \<or> v = Undefined then Inr None
      else bnd (constructor_name h v) (\<lambda>name.
        switch_on name (map (\<lambda>(n, mk). (n, Inr (Some (mk v)))) html_cases_v1)
          (Inl (UnsupportedElement name))))"

definition wrapElement_legacy :: "host \<Rightarrow> jsval \<Rightarrow> panic + facade option" where
  "wrapElement_legacy h v =
     (if v = Null \<or> v = Undefined then Inr None
      else bnd (constructor_name h v) (\<lambda>name. wrapHTMLElement_legacy h v))"

definition wrapNode_legacy :: "host \<Rightarrow> jsval \<Rightarrow> panic + facade option" where
  "wrapNode_legacy h v =
     (if v = Null \<or> v = Undefined then Inr None
      else bnd (constructor_name h v) (\<lambda>name. wrapElement_legacy h v))"

definition wrapEvent_legacy :: "host \<Rightarrow> jsval \<Rightarrow> panic + event option" where
  "wrapEvent_legacy h v =
     (if v = Null \<or> v = Undefined then Inr None
      else bnd (constructor_name h v) (\<lambda>name.
        Inr (Some (switch_on name event_cases BasicEvent v))))"

section \<open>Snapshot conversion\<close>

text \<open>
  A Go slice is either \<^verbatim>\<open>nil\<close> or a sequence; both have a length, and \<^verbatim>\<open>append\<close> to
  either gives a sequence. \<^verbatim>\<open>var out []T\<close> declares the \<^verbatim>\<open>nil\<close> slice.
\<close>

datatype 'a slice = NilSlice | Slice "'a list"

fun append_slice :: "'a slice \<Rightarrow> 'a \<Rightarrow> 'a slice" where
  "append_slice NilSlice x = Slice [x]"
| "append_slice (Slice xs) x = Slice (xs @ [x])"

fun to_list :: "'a slice \<Rightarrow> 'a list" where
  "to_list NilSlice = []"
| "to_list (Slice xs) = xs"

definition len :: "'a slice \<Rightarrow> nat" where
  "len s = length (to_list s)"

text \<open>The slice that \<^verbatim>\<open>var out []T\<close> and one \<^verbatim>\<open>append\<close> for each element of a list leave:
  \<^verbatim>\<open>nil\<close> when the list is empty.\<close>

definition slice_of :: "'a list \<Rightarrow> 'a slice" where
  "slice_of xs = (if xs = [] then NilSlice else Slice xs)"

text \<open>The loop of \<^verbatim>\<open>arrayToObjects\<close>, which reads \<^verbatim>\<open>o.Length()\<close> at every test.\<close>

function arrayToObjects_loop ::
  "host \<Rightarrow> jsval \<Rightarrow> int \<Rightarrow> jsval slice \<Rightarrow> panic + jsval slice" where
  "arrayToObjects_loop h v i out =
     (case Length h v of
        Inl e \<Rightarrow> Inl e
      | Inr n \<Rightarrow>
          if i < n then
            (case Index h v i of
               Inl e \<Rightarrow> Inl e
             | Inr x \<Rightarrow> arrayToObjects_loop h v (i + 1) (append_slice out x))
          else Inr out)"
  by pat_completeness auto
termination
  by (relation "measure (\<lambda>(h, v, i, out). nat ((case Length h v of Inl e \<Rightarrow> 0 | Inr n \<Rightarrow> n) - i))")
    auto

definition arrayToObjects :: "host \<Rightarrow> jsval \<Rightarrow> panic + jsval slice" where
  "arrayToObjects h v = arrayToObjects_loop h v 0 NilSlice"

text \<open>The loop \<^verbatim>\<open>for i := 0; i < length; i++ { out = append(out, o.Call("item", i)) }\<close>.\<close>

function item_loop ::
  "host \<Rightarrow> jsval \<Rightarrow> int \<Rightarrow> int \<Rightarrow> jsval slice \<Rightarrow> panic + jsval slice" where
  "item_loop h v i n out =
     (if i < n then
        (case Call_item h v i of
           Inl e \<Rightarrow> Inl e
         | Inr x \<Rightarrow> item_loop h v (i + 1) n (append_slice out x))
      else Inr out)"
  by pat_completeness auto
termination
  by (relation "measure (\<lambda>(h, v, i, n, out). nat (n - i))") auto

definition nodeListToObjects :: "host \<Rightarrow> jsval \<Rightarrow> panic + jsval slice" where
  "nodeListToObjects h v =
     bnd (Get h v ''constructor'') (\<lambda>c.
       if c = Global_Get h ''Array'' then arrayToObjects h v
       else bnd (Get h v ''length'') (\<lambda>l.
         bnd (Int_of l) (\<lambda>n. item_loop h v 0 n NilSlice)))"

text \<open>The loop \<^verbatim>\<open>for _, obj := range objs { out = append(out, wrap(obj)) }\<close>.\<close>

fun wrap_range ::
  "(jsval \<Rightarrow> panic + 'f) \<Rightarrow> jsval list \<Rightarrow> 'f slice \<Rightarrow> panic + 'f slice" where
  "wrap_range w [] out = Inr out"
| "wrap_range w (x # xs) out =
     (case w x of Inl e \<Rightarrow> Inl e | Inr f \<Rightarrow> wrap_range w xs (append_slice out f))"

definition nodeListToNodes :: "host \<Rightarrow> jsval \<Rightarrow> panic + facade option slice" where
  "nodeListToNodes h v =
     bnd (nodeListToObjects h v) (\<lambda>objs. wrap_range (wrapNode h) (to_list objs) NilSlice)"

definition nodeListToElements :: "host \<Rightarrow> jsval \<Rightarrow> panic + facade option slice" where
  "nodeListToElements h v =
     bnd (nodeListToObjects h v) (\<lambda>objs. wrap_range (wrapElement h) (to_list objs) NilSlice)"

definition nodeListToHTMLElements :: "host \<Rightarrow> jsval \<Rightarrow> panic + facade option slice" where
  "nodeListToHTMLElements h v =
     bnd (nodeListToObjects h v) (\<lambda>objs. wrap_range (wrapHTMLElement h) (to_list objs) NilSlice)"

text \<open>
  The converters of \<^verbatim>\<open>src/dom.go\<close> and \<^verbatim>\<open>src/unnamed/part_001\<close> have one loop,
  \<^verbatim>\<open>for i := 0; i < length; i++ { out = append(out, wrap(o.Call("item", i))) }\<close>,
  after \<^verbatim>\<open>length := o.Get("length").Int()\<close>.
\<close>

function wrap_item_loop ::
  "(jsval \<Rightarrow> panic + 'f) \<Rightarrow> host \<Rightarrow> jsval \<Rightarrow> int \<Rightarrow> int \<Rightarrow> 'f slice \<Rightarrow> panic + 'f slice" where
  "wrap_item_loop w h v i n out =
     (if i < n then
        (case Call_item_gopherjs h v i of
           Inl e \<Rightarrow> Inl e
         | Inr x \<Rightarrow>
             (case w x of
                Inl e \<Rightarrow> Inl e
              | Inr f \<Rightarrow> wrap_item_loop w h v (i + 1) n (append_slice out f)))
      else Inr out)"
  by pat_completeness auto
termination
  by (relation "measure (\<lambda>(w, h, v, i, n, out). nat (n - i))") auto

definition nodeListToNodes_v1 :: "host \<Rightarrow> jsval \<Rightarrow> panic + facade option slice" where
  "nodeListToNodes_v1 h v =
     bnd (Get_gopherjs h v ''length'') (\<lambda>l.
       wrap_item_loop (wrapNode_v1 h) h v 0 (Int_gopherjs h l) NilSlice)"

definition nodeListToElements_v1 :: "host \<Rightarrow> jsval \<Rightarrow> panic + facade option slice" where
  "nodeListToElements_v1 h v =
     bnd (Get_gopherjs h v ''length'') (\<lambda>l.
       wrap_item_loop (wrapElement_v1 h) h v 0 (Int_gopherjs h l) NilSlice)"

definition nodeListToNodes_legacy :: "host \<Rightarrow> jsval \<Rightarrow> panic + facade option slice" where
  "nodeListToNodes_legacy h v =
     bnd (Get_gopherjs h v ''length'') (\<lambda>l.
       wrap_item_loop (wrapNode_legacy h) h v 0 (Int_gopherjs h l) NilSlice)"

definition nodeListToElements_legacy :: "host \<Rightarrow> jsval \<Rightarrow> panic + facade option slice" where
  "nodeListToElements_legacy h v =
     bnd (Get_gopherjs h v ''length'') (\<lambda>l.
       wrap_item_loop (wrapElement_legacy h) h v 0 (Int_gopherjs h l) NilSlice)"

section \<open>Cross-reference resolvers\<close>

text \<open>
  The type assertion \<^verbatim>\<open>x.(*T)\<close> on an interface value: it panics when \<open>x\<close> is
  \<^verbatim>\<open>nil\<close> or holds another type, and otherwise gives the value held.
\<close>

fun assert_type :: "string \<Rightarrow> facade option \<Rightarrow> panic + facade" where
  "assert_type T (Some (Concrete T' v)) =
     (if T' = T then Inr (Concrete T' v) else Inl TypeAssertion)"
| "assert_type T x = Inl TypeAssertion"

definition getForm :: "host \<Rightarrow> jsval \<Rightarrow> panic + facade option" where
  "getForm h v =
     bnd (Get h v ''form'') (\<lambda>x.
       bnd (wrapHTMLElement h x) (\<lambda>form.
         if form = None then Inr None
         else bnd (assert_type ''HTMLFormElement'' form) (\<lambda>f. Inr (Some f))))"

definition getForm_v1 :: "host \<Rightarrow> jsval \<Rightarrow> panic + facade option" where
  "getForm_v1 h v =
     bnd (Get_gopherjs h v ''form'') (\<lambda>x.
       bnd (wrapHTMLElement_v1 h x) (\<lambda>form.
         if form = None then Inr None
         else bnd (assert_type ''HTMLFormElement'' form) (\<lambda>f. Inr (Some f))))"

text \<open>The loop \<^verbatim>\<open>for i, label := range labels { out[i] = label.(*T) }\<close> over a slice made
  with \<^verbatim>\<open>make([]*T, len(labels))\<close>.\<close>

fun assert_range :: "string \<Rightarrow> facade option list \<Rightarrow> panic + facade list" where
  "assert_range T [] = Inr []"
| "assert_range T (x # xs) =
     (case assert_type T x of
        Inl e \<Rightarrow> Inl e
      | Inr f \<Rightarrow> (case assert_range T xs of Inl e \<Rightarrow> Inl e | Inr fs \<Rightarrow> Inr (f # fs)))"

definition getLabels :: "host \<Rightarrow> jsval \<Rightarrow> panic + facade slice" where
  "getLabels h v =
     bnd (Get h v ''labels'') (\<lambda>l.
       bnd (nodeListToElements h l) (\<lambda>labels.
         bnd (assert_range ''HTMLLabelElement'' (to_list labels)) (\<lambda>out. Inr (Slice out))))"

section \<open>TokenList\<close>

text \<open>
  \<^verbatim>\<open>Set\<close> of either bridge writes a property of an object of the host and fails
  on any other receiver. The host keeps what was written: a later \<^verbatim>\<open>Get\<close> of that
  property of that object reads it, and no other property changes.
\<close>

definition Set_prop :: "host \<Rightarrow> jsval \<Rightarrow> string \<Rightarrow> jsval \<Rightarrow> panic + host" where
  "Set_prop h v p x =
     (case v of
        Ref r \<Rightarrow> Inr (h\<lparr>props := (props h)(v := (props h v)(p := x))\<rparr>)
      | _ \<Rightarrow> Inl HostError)"

text \<open>The struct \<^verbatim>\<open>TokenList\<close>; its field \<^verbatim>\<open>o\<close> is \<open>obj\<close> here.\<close>

record TokenList =
  dtl :: jsval
  obj :: jsval
  sa :: string

text \<open>\<^verbatim>\<open>toString\<close> of \<^verbatim>\<open>src/v2/dom_go113.go\<close>.\<close>

definition toString :: "host \<Rightarrow> jsval \<Rightarrow> string" where
  "toString h v = (if v = Null \<or> v = Undefined then '''' else String_of h v)"

definition TokenList_Item :: "host \<Rightarrow> TokenList \<Rightarrow> int \<Rightarrow> panic + string" where
  "TokenList_Item h tk idx = bnd (Call_item h (dtl tk) idx) (\<lambda>x. Inr (toString h x))"

text \<open>\<^verbatim>\<open>TokenList.Item\<close> of \<^verbatim>\<open>src/unnamed/part_001\<close>, with the test written in place.\<close>

definition TokenList_Item_v1 :: "host \<Rightarrow> TokenList \<Rightarrow> int \<Rightarrow> panic + string" where
  "TokenList_Item_v1 h tk idx =
     bnd (Call_item_gopherjs h (dtl tk) idx) (\<lambda>x.
       if x = Null \<or> x = Undefined then Inr '''' else Inr (String_of h x))"

definition TokenList_String :: "host \<Rightarrow> TokenList \<Rightarrow> panic + string" where
  "TokenList_String h tk =
     (if sa tk \<noteq> '''' then bnd (Get h (obj tk) (sa tk)) (\<lambda>x. Inr (String_of h x))
      else bnd (Get h (dtl tk) ''constructor'') (\<lambda>c.
        if c = Global_Get h ''DOMSettableTokenList''
        then bnd (Get h (dtl tk) ''value'') (\<lambda>x. Inr (String_of h x))
        else Inr ''''))"

definition TokenList_SetString :: "host \<Rightarrow> TokenList \<Rightarrow> string \<Rightarrow> panic + host" where
  "TokenList_SetString h tk s =
     (if sa tk \<noteq> '''' then Set_prop h (obj tk) (sa tk) (JStr s)
      else bnd (Get h (dtl tk) ''constructor'') (\<lambda>c.
        if c = Global_Get h ''DOMSettableTokenList''
        then Set_prop h (dtl tk) ''value'' (JStr s)
        else Inl NoSetString))"

text \<open>
  \<^verbatim>\<open>TokenList.String\<close> and \<^verbatim>\<open>TokenList.SetString\<close> of \<^verbatim>\<open>src/unnamed/part_001\<close>:
  the same statements over GopherJS's \<^verbatim>\<open>Get\<close>, \<^verbatim>\<open>Str\<close> and \<^verbatim>\<open>Set\<close>.
\<close>

definition TokenList_String_v1 :: "host \<Rightarrow> TokenList \<Rightarrow> panic + string" where
  "TokenList_String_v1 h tk =
     (if sa tk \<noteq> '''' then bnd (Get_gopherjs h (obj tk) (sa tk)) (\<lambda>x. Inr (String_of h x))
      else bnd (Get_gopherjs h (dtl tk) ''constructor'') (\<lambda>c.
        if c = Global_Get h ''DOMSettableTokenList''
        then bnd (Get_gopherjs h (dtl tk) ''value'') (\<lambda>x. Inr (String_of h x))
        else Inr ''''))"

definition TokenList_SetString_v1 :: "host \<Rightarrow> TokenList \<Rightarrow> string \<Rightarrow> panic + host" where
  "TokenList_SetString_v1 h tk s =
     (if sa tk \<noteq> '''' then Set_prop h (obj tk) (sa tk) (JStr s)
      else bnd (Get_gopherjs h (dtl tk) ''constructor'') (\<lambda>c.
        if c = Global_Get h ''DOMSettableTokenList''
        then Set_prop h (dtl tk) ''value'' (JStr s)
        else Inl NoSetString))"

section \<open>Event listeners\<close>

text \<open>
  The host keeps, for every event target, the listeners registered on it: an event
  type, the identity of a callback and the capture flag. \<^verbatim>\<open>addEventListener\<close> adds an
  entry unless the same entry is there, \<^verbatim>\<open>removeEventListener\<close> removes the entry with
  the same type, callback identity and flag, and firing an event of a type on a target
  calls the callbacks registered for that type on that target, in order.

  A function value the bindings hand to the host gets a fresh identity when it is
  created (a closure, or \<^verbatim>\<open>js.FuncOf\<close>). \<open>funcs\<close> holds the live ones: what each does
  when called with an event handle, namely which listener of the caller it invokes
  and with which facade. A callback that is not one of them (a function of the page, or
  a \<^verbatim>\<open>js.Func\<close> already released) invokes no listener of the caller. A listener of
  the caller is a number, and \<open>calls\<close> records every invocation of one.
\<close>

record world =
  hst :: host
  registry :: "(jsval \<times> string \<times> nat \<times> bool) list"
  funcs :: "nat \<Rightarrow> (host \<Rightarrow> jsval \<Rightarrow> panic + nat \<times> event option) option"
  next_func :: nat
  calls :: "(nat \<times> event option) list"

definition new_func ::
  "world \<Rightarrow> (host \<Rightarrow> jsval \<Rightarrow> panic + nat \<times> event option) \<Rightarrow> nat \<times> world" where
  "new_func w body =
     (next_func w, w\<lparr>funcs := (funcs w)(next_func w \<mapsto> body), next_func := next_func w + 1\<rparr>)"

definition Call_addEventListener ::
  "world \<Rightarrow> jsval \<Rightarrow> string \<Rightarrow> nat \<Rightarrow> bool \<Rightarrow> panic + world" where
  "Call_addEventListener w t typ f useCapture =
     (case t of
        Ref r \<Rightarrow>
          Inr (if (t, typ, f, useCapture) \<in> set (registry w) then w
               else w\<lparr>registry := registry w @ [(t, typ, f, useCapture)]\<rparr>)
      | _ \<Rightarrow> Inl HostError)"

definition Call_removeEventListener ::
  "world \<Rightarrow> jsval \<Rightarrow> string \<Rightarrow> nat \<Rightarrow> bool \<Rightarrow> panic + world" where
  "Call_removeEventListener w t typ f useCapture =
     (case t of
        Ref r \<Rightarrow> Inr (w\<lparr>registry := removeAll (t, typ, f, useCapture) (registry w)\<rparr>)
      | _ \<Rightarrow> Inl HostError)"

fun fire_loop :: "world \<Rightarrow> (jsval \<times> string \<times> nat \<times> bool) list \<Rightarrow> jsval \<Rightarrow> panic + world" where
  "fire_loop w [] ev = Inr w"
| "fire_loop w ((t, typ, f, c) # rs) ev =
     (case funcs w f of
        None \<Rightarrow> fire_loop w rs ev
      | Some body \<Rightarrow>
          (case body (hst w) ev of
             Inl e \<Rightarrow> Inl e
           | Inr call \<Rightarrow> fire_loop (w\<lparr>calls := calls w @ [call]\<rparr>) rs ev))"

definition fire :: "world \<Rightarrow> jsval \<Rightarrow> string \<Rightarrow> jsval \<Rightarrow> panic + world" where
  "fire w t typ ev =
     fire_loop w (filter (\<lambda>(t', typ', f, c). t' = t \<and> typ' = typ) (registry w)) ev"

text \<open>\<^verbatim>\<open>BasicNode.AddEventListener\<close> and \<^verbatim>\<open>BasicNode.RemoveEventListener\<close> of
  \<^verbatim>\<open>src/v2/dom_go113.go\<close>; the latter ends with \<^verbatim>\<open>listener.Release()\<close>.\<close>

definition AddEventListener ::
  "world \<Rightarrow> jsval \<Rightarrow> string \<Rightarrow> bool \<Rightarrow> nat \<Rightarrow> panic + nat \<times> world" where
  "AddEventListener w n typ useCapture listener =
     (case new_func w (\<lambda>h a. bnd (wrapEvent h a) (\<lambda>e. Inr (listener, e))) of
        (wrapper, w1) \<Rightarrow>
          bnd (Call_addEventListener w1 n typ wrapper useCapture) (\<lambda>w2. Inr (wrapper, w2)))"

definition RemoveEventListener ::
  "world \<Rightarrow> jsval \<Rightarrow> string \<Rightarrow> bool \<Rightarrow> nat \<Rightarrow> panic + world" where
  "RemoveEventListener w n typ useCapture listener =
     bnd (Call_removeEventListener w n typ listener useCapture) (\<lambda>w1.
       Inr (w1\<lparr>funcs := (funcs w1)(listener := None)\<rparr>))"

text \<open>The same two methods in \<^verbatim>\<open>src/unnamed/part_001\<close>: the wrapper is a closure and is
  returned; nothing is released.\<close>

definition AddEventListener_v1 ::
  "world \<Rightarrow> jsval \<Rightarrow> string \<Rightarrow> bool \<Rightarrow> nat \<Rightarrow> panic + nat \<times> world" where
  "AddEventListener_v1 w n typ useCapture listener =
     (case new_func w (\<lambda>h a. bnd (wrapEvent_v1 h a) (\<lambda>e. Inr (listener, e))) of
        (wrapper, w1) \<Rightarrow>
          bnd (Call_addEventListener w1 n typ wrapper useCapture) (\<lambda>w2. Inr (wrapper, w2)))"

definition RemoveEventListener_v1 ::
  "world \<Rightarrow> jsval \<Rightarrow> string \<Rightarrow> bool \<Rightarrow> nat \<Rightarrow> panic + world" where
  "RemoveEventListener_v1 w n typ useCapture listener =
     Call_removeEventListener w n typ listener useCapture"

text \<open>
  The same two methods in \<^verbatim>\<open>src/dom.go\<close>. Both take the caller's listener, both
  evaluate the function literal \<^verbatim>\<open>func(o js.Object) { listener(wrapEvent(o)) }\<close> (each
  evaluation is a new function value) and pass it to the host; neither returns a value.
\<close>

definition AddEventListener_legacy ::
  "world \<Rightarrow> jsval \<Rightarrow> string \<Rightarrow> bool \<Rightarrow> nat \<Rightarrow> panic + world" where
  "AddEventListener_legacy w n typ useCapture listener =
     (case new_func w (\<lambda>h a. bnd (wrapEvent_legacy h a) (\<lambda>e. Inr (listener, e))) of
        (wrapper, w1) \<Rightarrow> Call_addEventListener w1 n typ wrapper useCapture)"

definition RemoveEventListener_legacy ::
  "world \<Rightarrow> jsval \<Rightarrow> string \<Rightarrow> bool \<Rightarrow> nat \<Rightarrow> panic + world" where
  "RemoveEventListener_legacy w n typ useCapture listener =
     (case new_func w (\<lambda>h a. bnd (wrapEvent_legacy h a) (\<lambda>e. Inr (listener, e))) of
        (wrapper, w1) \<Rightarrow> Call_removeEventListener w1 n typ wrapper useCapture)"

section \<open>A concrete host\<close>

text \<open>
  A small page, used to run the definitions. The global object (reference 0) holds the
  constructors; every constructor has its \<^verbatim>\<open>name\<close>. Reference 11 is a form, 12 a
  \<^verbatim>\<open>div\<close>, 13 an input of that form with a class list (30), 14 an object whose
  \<^verbatim>\<open>form\<close> is the \<^verbatim>\<open>div\<close>, 15 an SVG element, 16 a \<^verbatim>\<open>NodeList\<close> of the form and the
  \<^verbatim>\<open>div\<close>, 17 an \<^verbatim>\<open>Array\<close> of the same two, 18 an empty \<^verbatim>\<open>NodeList\<close>, 19 a mouse
  event, 20 an event of a type the bindings do not know, 21 a \<^verbatim>\<open>NodeList\<close> of the SVG
  element, 22 a \<^verbatim>\<open>div\<close> on which a script has set \<^verbatim>\<open>node\<close> to \<^verbatim>\<open>null\<close>, 31 a
  \<^verbatim>\<open>DOMSettableTokenList\<close>. An \<^verbatim>\<open>Array\<close> has no method \<^verbatim>\<open>item\<close>.
\<close>

definition demo_objects :: "(nat \<times> (string \<times> jsval) list) list" where
  "demo_objects = [
     (0, [(''HTMLFormElement'', Ref 100), (''HTMLDivElement'', Ref 101),
          (''HTMLInputElement'', Ref 102), (''Array'', Ref 103), (''Text'', Ref 104),
          (''MouseEvent'', Ref 105), (''DOMSettableTokenList'', Ref 106),
          (''SVGSVGElement'', Ref 107), (''NodeList'', Ref 108), (''DOMTokenList'', Ref 109),
          (''SpeechSynthesisEvent'', Ref 110)]),
     (11, [(''constructor'', Ref 100)]),
     (12, [(''constructor'', Ref 101)]),
     (13, [(''constructor'', Ref 102), (''form'', Ref 11), (''className'', JStr ''a''),
          (''classList'', Ref 30)]),
     (14, [(''constructor'', Ref 102), (''form'', Ref 12)]),
     (15, [(''constructor'', Ref 107)]),
     (16, [(''constructor'', Ref 108), (''length'', JNum 2)]),
     (17, [(''constructor'', Ref 103), (''length'', JNum 2)]),
     (18, [(''constructor'', Ref 108), (''length'', JNum 0)]),
     (19, [(''constructor'', Ref 105)]),
     (20, [(''constructor'', Ref 110)]),
     (21, [(''constructor'', Ref 108), (''length'', JNum 1)]),
     (22, [(''constructor'', Ref 101), (''node'', Null)]),
     (30, [(''constructor'', Ref 109), (''length'', JNum 1)]),
     (31, [(''constructor'', Ref 106), (''value'', JStr ''x y'')]),
     (100, [(''name'', JStr ''HTMLFormElement'')]),
     (101, [(''name'', JStr ''HTMLDivElement'')]),
     (102, [(''name'', JStr ''HTMLInputElement'')]),
     (103, [(''name'', JStr ''Array'')]),
     (104, [(''name'', JStr ''Text'')]),
     (105, [(''name'', JStr ''MouseEvent'')]),
     (106, [(''name'', JStr ''DOMSettableTokenList'')]),
     (107, [(''name'', JStr ''SVGSVGElement'')]),
     (108, [(''name'', JStr ''NodeList'')]),
     (109, [(''name'', JStr ''DOMTokenList'')]),
     (110, [(''name'', JStr ''SpeechSynthesisEvent'')])]"

definition demo_props :: "jsval \<Rightarrow> string \<Rightarrow> jsval" where
  "demo_props v p =
     (case v of
        Ref r \<Rightarrow>
          (case map_of demo_objects r of
             Some ps \<Rightarrow> (case map_of ps p of Some x \<Rightarrow> x | None \<Rightarrow> Undefined)
           | None \<Rightarrow> Undefined)
      | _ \<Rightarrow> Undefined)"

definition demo_item :: "jsval \<Rightarrow> int \<Rightarrow> jsval option" where
  "demo_item v i =
     (if v = Ref 16 then Some (if i = 0 then Ref 11 else if i = 1 then Ref 12 else Null)
      else if v = Ref 18 then Some Null
      else if v = Ref 21 then Some (if i = 0 then Ref 15 else Null)
      else if v = Ref 30 then Some (if i = 0 then JStr ''a'' else Null)
      else None)"

definition demo_elems :: "jsval \<Rightarrow> int \<Rightarrow> jsval" where
  "demo_elems v i =
     (if v = Ref 17 then (if i = 0 then Ref 11 else if i = 1 then Ref 12 else Undefined)
      else Undefined)"

definition demo_host :: host where
  "demo_host =
     \<lparr>props = demo_props, item_of = demo_item, elems = demo_elems,
      render = (\<lambda>v. ''<object>''), coerce_int = (\<lambda>v. 0)\<rparr>"

text \<open>The page before any listener is registered.\<close>

definition demo_world :: world where
  "demo_world =
     \<lparr>hst = demo_host, registry = [], funcs = (\<lambda>f. None), next_func = 0, calls = []\<rparr>"

section \<open>Basic facts\<close>

lemma bnd_Inl [simp]: "bnd (Inl e) f = Inl e"
  by (simp add: bnd_def)

lemma bnd_Inr [simp]: "bnd (Inr x) f = f x"
  by (simp add: bnd_def)

subsection \<open>The switch and the dispatch tables\<close>

lemma switch_on_Nil [simp]: "switch_on c [] d = d"
  by (simp add: switch_on_def)

lemma switch_on_Cons [simp]:
  "switch_on c ((t, r) # cs) d = (if c = t then r else switch_on c cs d)"
  by (simp add: switch_on_def)

lemma switch_on_default: "c \<notin> fst ` set cs \<Longrightarrow> switch_on c cs d = d"
  by (induction cs) auto

lemma switch_on_cases: "switch_on c cs d = d \<or> (c, switch_on c cs d) \<in> set cs"
proof (induction cs)
  case Nil
  show ?case by simp
next
  case (Cons p cs)
  obtain t r where p: "p = (t, r)" by (cases p)
  show ?case
  proof (cases "c = t")
    case True
    then show ?thesis using p by simp
  next
    case False
    then show ?thesis using p Cons by auto
  qed
qed

lemma switch_on_hit: "c \<in> fst ` set cs \<Longrightarrow> (c, switch_on c cs d) \<in> set cs"
proof (induction cs)
  case Nil
  then show ?case by simp
next
  case (Cons p cs)
  obtain t r where p: "p = (t, r)" by (cases p)
  show ?case
  proof (cases "c = t")
    case True
    then show ?thesis using p by simp
  next
    case False
    then have "c \<in> fst ` set cs" using Cons.prems p by auto
    then show ?thesis using p False Cons.IH by simp
  qed
qed

lemma in_by_identity:
  "(t, r) \<in> set (by_identity h cs) \<longleftrightarrow> (\<exists>n. (n, r) \<in> set cs \<and> t = Global_Get h n)"
  by (auto simp: by_identity_def)

lemma fst_by_identity: "fst ` set (by_identity h cs) = Global_Get h ` fst ` set cs"
  by (force simp: by_identity_def image_iff)

lemma fst_html_cases: "fst ` set html_cases = insert ''HTMLElement'' (set html_types)"
  by (auto simp: html_cases_def image_iff)

lemma fst_html_cases_v1: "fst ` set html_cases_v1 = set html_types_v1"
  by (auto simp: html_cases_v1_def image_iff)

lemma fst_event_cases: "fst ` set event_cases = set event_types"
  by (auto simp: event_cases_def image_iff)

lemma in_html_cases:
  "(n, mk) \<in> set html_cases \<longleftrightarrow>
     (n \<in> set html_types \<and> mk = Concrete n) \<or> (n = ''HTMLElement'' \<and> mk = BasicHTMLElement)"
  by (auto simp: html_cases_def)

lemma in_html_cases_v1:
  "(n, mk) \<in> set html_cases_v1 \<longleftrightarrow> n \<in> set html_types_v1 \<and> mk = Concrete n"
  by (auto simp: html_cases_v1_def)

lemma in_event_cases:
  "(n, mk) \<in> set event_cases \<longleftrightarrow> n \<in> set event_types \<and> mk = ConcreteEvent n"
  by (auto simp: event_cases_def)

lemma Get_Ref [simp]: "Get h (Ref r) p = Inr (props h (Ref r) p)"
  by (simp add: Get_def)

lemma Get_gopherjs_Ref [simp]: "Get_gopherjs h (Ref r) p = Inr (props h (Ref r) p)"
  by (simp add: Get_gopherjs_def)

subsection \<open>Reading the concrete host\<close>

lemma demo_Global_Get:
  "Global_Get demo_host n =
     (case map_of [(''HTMLFormElement'', Ref 100), (''HTMLDivElement'', Ref 101),
          (''HTMLInputElement'', Ref 102), (''Array'', Ref 103), (''Text'', Ref 104),
          (''MouseEvent'', Ref 105), (''DOMSettableTokenList'', Ref 106),
          (''SVGSVGElement'', Ref 107), (''NodeList'', Ref 108), (''DOMTokenList'', Ref 109),
          (''SpeechSynthesisEvent'', Ref 110)] n of Some x \<Rightarrow> x | None \<Rightarrow> Undefined)"
  by (simp add: Global_Get_def Global_def demo_host_def demo_props_def demo_objects_def)

lemma demo_Global_Get_110: "Global_Get demo_host n = Ref 110 \<longleftrightarrow> n = ''SpeechSynthesisEvent''"
  unfolding demo_Global_Get by (simp split: if_splits)

lemma demo_Global_Get_107: "Global_Get demo_host n = Ref 107 \<longleftrightarrow> n = ''SVGSVGElement''"
  unfolding demo_Global_Get by (simp split: if_splits)

lemma demo_Global_Get_100: "Global_Get demo_host n = Ref 100 \<longleftrightarrow> n = ''HTMLFormElement''"
  unfolding demo_Global_Get by (simp split: if_splits)

lemma demo_props_simps:
  "props demo_host (Ref 20) ''constructor'' = Ref 110"
  "props demo_host (Ref 110) ''name'' = JStr ''SpeechSynthesisEvent''"
  "props demo_host (Ref 15) ''constructor'' = Ref 107"
  "props demo_host (Ref 15) ''node'' = Undefined"
  "props demo_host (Ref 107) ''name'' = JStr ''SVGSVGElement''"
  by (simp_all add: demo_host_def demo_props_def demo_objects_def)

subsection \<open>What the element switch can return\<close>

lemma html_switch_cases:
  "switch_on c (by_identity h html_cases) BasicHTMLElement v = BasicHTMLElement v \<or>
   (\<exists>T \<in> set html_types. c = Global_Get h T \<and>
      switch_on c (by_identity h html_cases) BasicHTMLElement v = Concrete T v)"
  using switch_on_cases [of c "by_identity h html_cases" BasicHTMLElement]
  by (auto simp: in_by_identity in_html_cases)

lemma html_switch_Underlying:
  "Underlying (switch_on c (by_identity h html_cases) BasicHTMLElement v) = v"
  using html_switch_cases [of c h v] by auto

lemma html_switch_v1_cases:
  "(c \<notin> Global_Get h ` set html_types_v1 \<and>
    switch_on c (by_identity h (map (\<lambda>(n, mk). (n, Inr (Some (mk v)))) html_cases_v1)) d = d) \<or>
   (\<exists>T \<in> set html_types_v1. c = Global_Get h T \<and>
      switch_on c (by_identity h (map (\<lambda>(n, mk). (n, Inr (Some (mk v)))) html_cases_v1)) d
        = Inr (Some (Concrete T v)))"
proof (cases "c \<in> Global_Get h ` set html_types_v1")
  case False
  then have "c \<notin> fst ` set (by_identity h (map (\<lambda>(n, mk). (n, Inr (Some (mk v)))) html_cases_v1))"
    by (force simp: by_identity_def html_cases_v1_def image_iff)
  then have "switch_on c (by_identity h (map (\<lambda>(n, mk). (n, Inr (Some (mk v)))) html_cases_v1)) d = d"
    by (rule switch_on_default)
  then show ?thesis using False by blast
next
  case True
  then have "c \<in> fst ` set (by_identity h (map (\<lambda>(n, mk). (n, Inr (Some (mk v)))) html_cases_v1))"
    by (force simp: by_identity_def html_cases_v1_def image_iff)
  from switch_on_hit [OF this, of d] show ?thesis
    by (auto simp: in_by_identity html_cases_v1_def)
qed

lemma html_switch_legacy:
  "switch_on name (map (\<lambda>(n, mk). (n, Inr (Some (mk v)))) html_cases_v1) d =
     (if name \<in> set html_types_v1 then Inr (Some (Concrete name v)) else d)"
proof (cases "name \<in> set html_types_v1")
  case False
  then have "name \<notin> fst ` set (map (\<lambda>(n, mk). (n, Inr (Some (mk v)))) html_cases_v1)"
    by (force simp: html_cases_v1_def image_iff)
  then have "switch_on name (map (\<lambda>(n, mk). (n, Inr (Some (mk v)))) html_cases_v1) d = d"
    by (rule switch_on_default)
  then show ?thesis using False by simp
next
  case True
  then have "name \<in> fst ` set (map (\<lambda>(n, mk). (n, Inr (Some (mk v)))) html_cases_v1)"
    by (force simp: html_cases_v1_def image_iff)
  from switch_on_hit [OF this, of d] show ?thesis
    using True by (auto simp: html_cases_v1_def)
qed

lemma elementConstructor_Ref:
  "elementConstructor h (Ref r) =
     (if props h (Ref r) ''node'' \<noteq> Undefined
      then Get h (props h (Ref r) ''node'') ''constructor''
      else Inr (props h (Ref r) ''constructor''))"
  by (simp add: elementConstructor_def)

lemma wrapHTMLElement_Some:
  assumes "wrapHTMLElement h x = Inr (Some f)"
  shows "x \<noteq> Null \<and> x \<noteq> Undefined \<and>
         (\<exists>c. elementConstructor h x = Inr c \<and>
            (f = BasicHTMLElement x \<or>
             (\<exists>T \<in> set html_types. f = Concrete T x \<and> c = Global_Get h T)))"
proof -
  from assms have nn: "x \<noteq> Null \<and> x \<noteq> Undefined"
    by (auto simp: wrapHTMLElement_def split: if_splits)
  with assms obtain c where c: "elementConstructor h x = Inr c"
    by (cases "elementConstructor h x") (auto simp: wrapHTMLElement_def)
  with assms nn have "f = switch_on c (by_identity h html_cases) BasicHTMLElement x"
    by (simp add: wrapHTMLElement_def)
  with html_switch_cases [of c h x] nn c show ?thesis by auto
qed

lemma wrapHTMLElement_not_None:
  "x \<noteq> Null \<Longrightarrow> x \<noteq> Undefined \<Longrightarrow> wrapHTMLElement h x \<noteq> Inr None"
  by (cases "elementConstructor h x") (auto simp: wrapHTMLElement_def)

lemma wrapHTMLElement_v1_Some:
  assumes "wrapHTMLElement_v1 h x = Inr (Some f)"
  shows "x \<noteq> Null \<and> x \<noteq> Undefined \<and>
         (\<exists>T \<in> set html_types_v1. f = Concrete T x \<and> props h x ''constructor'' = Global_Get h T)"
proof -
  from assms have nn: "x \<noteq> Null \<and> x \<noteq> Undefined"
    by (auto simp: wrapHTMLElement_v1_def split: if_splits)
  show ?thesis
    using assms nn html_switch_v1_cases [of "props h x ''constructor''" h x "Inl (UnsupportedElement (render h x))"]
    by (auto simp: wrapHTMLElement_v1_def Get_gopherjs_def)
qed

lemma wrapHTMLElement_v1_not_None:
  "x \<noteq> Null \<Longrightarrow> x \<noteq> Undefined \<Longrightarrow> wrapHTMLElement_v1 h x \<noteq> Inr None"
  using html_switch_v1_cases [of "props h x ''constructor''" h x "Inl (UnsupportedElement (render h x))"]
  by (auto simp: wrapHTMLElement_v1_def Get_gopherjs_def)

subsection \<open>More of the concrete host\<close>

lemma demo_props_more:
  "props demo_host (Ref 11) ''constructor'' = Ref 100"
  "props demo_host (Ref 11) ''node'' = Undefined"
  "props demo_host (Ref 100) ''name'' = JStr ''HTMLFormElement''"
  "props demo_host (Ref 12) ''constructor'' = Ref 101"
  "props demo_host (Ref 12) ''node'' = Undefined"
  "props demo_host (Ref 101) ''name'' = JStr ''HTMLDivElement''"
  "props demo_host (Ref 13) ''form'' = Ref 11"
  "props demo_host (Ref 14) ''form'' = Ref 12"
  "props demo_host (Ref 15) ''form'' = Undefined"
  by (simp_all add: demo_host_def demo_props_def demo_objects_def)

lemma demo_svg_unrecognized:
  "Ref 107 \<notin> Global_Get demo_host ` set html_types"
  "Ref 107 \<notin> Global_Get demo_host ` set html_types_v1"
proof -
  have "''SVGSVGElement'' \<notin> set html_types" by (simp add: html_types_def)
  then show "Ref 107 \<notin> Global_Get demo_host ` set html_types"
    by (auto simp: demo_Global_Get_107 eq_commute [of "Ref 107"])
  have "''SVGSVGElement'' \<notin> set html_types_v1" by (simp add: html_types_v1_def)
  then show "Ref 107 \<notin> Global_Get demo_host ` set html_types_v1"
    by (auto simp: demo_Global_Get_107 eq_commute [of "Ref 107"])
qed

lemma demo_constructor_names:
  "constructor_name demo_host (Ref 15) = Inr ''SVGSVGElement''"
  "constructor_name demo_host (Ref 11) = Inr ''HTMLFormElement''"
  "constructor_name demo_host (Ref 12) = Inr ''HTMLDivElement''"
  by (simp_all add: constructor_name_def demo_props_simps demo_props_more String_of_def)

lemma demo_names:
  "''SVGSVGElement'' \<notin> set html_types_v1"
  "''HTMLFormElement'' \<in> set html_types_v1"
  "''HTMLDivElement'' \<in> set html_types_v1"
  by (simp_all add: html_types_v1_def)

subsection \<open>Type assertions\<close>

lemma assert_type_Inr:
  "assert_type T x = Inr f \<longleftrightarrow> (\<exists>v. x = Some (Concrete T v) \<and> f = Concrete T v)"
  by (cases "(T, x)" rule: assert_type.cases) auto

lemma assert_type_other:
  "Underlying f = x \<Longrightarrow> f \<noteq> Concrete T x \<Longrightarrow> assert_type T (Some f) = Inl TypeAssertion"
  by (cases f) auto

lemma wrapHTMLElement_Underlying:
  "wrapHTMLElement h x = Inr (Some f) \<Longrightarrow> Underlying f = x"
  using wrapHTMLElement_Some [of h x f] by auto

lemma wrapHTMLElement_v1_Underlying:
  "wrapHTMLElement_v1 h x = Inr (Some f) \<Longrightarrow> Underlying f = x"
  using wrapHTMLElement_v1_Some [of h x f] by auto

lemma assert_type_Inl: "assert_type T x = Inl e \<Longrightarrow> e = TypeAssertion"
  by (cases "(T, x)" rule: assert_type.cases) (auto split: if_splits)

lemma html_switch_hit:
  assumes "T \<in> set html_types" and "c = Global_Get h T"
    and "\<And>n. n \<in> insert ''HTMLElement'' (set html_types) \<Longrightarrow> Global_Get h n = c \<Longrightarrow> n = T"
    and "T \<noteq> ''HTMLElement''"
  shows "switch_on c (by_identity h html_cases) BasicHTMLElement v = Concrete T v"
proof -
  let ?sw = "switch_on c (by_identity h html_cases) BasicHTMLElement"
  have "c \<in> Global_Get h ` fst ` set html_cases"
    using assms(1,2) by (simp add: fst_html_cases)
  then have "c \<in> fst ` set (by_identity h html_cases)"
    by (simp only: fst_by_identity)
  then have "(c, ?sw) \<in> set (by_identity h html_cases)"
    by (rule switch_on_hit)
  then obtain n where n: "(n, ?sw) \<in> set html_cases" and c: "c = Global_Get h n"
    unfolding in_by_identity by blast
  from n have m: "(n \<in> set html_types \<and> ?sw = Concrete n) \<or>
                  (n = ''HTMLElement'' \<and> ?sw = BasicHTMLElement)"
    unfolding in_html_cases .
  then have "n \<in> insert ''HTMLElement'' (set html_types)" by blast
  then have "n = T" using c assms(3) by blast
  with m assms(4) have "?sw = Concrete T" by blast
  then show ?thesis by (rule arg_cong [where f = "\<lambda>g. g v"])
qed

lemma html_switch_v1_hit:
  assumes "T \<in> set html_types_v1" and "c = Global_Get h T"
    and "\<And>n. n \<in> set html_types_v1 \<Longrightarrow> Global_Get h n = c \<Longrightarrow> n = T"
  shows "switch_on c (by_identity h (map (\<lambda>(n, mk). (n, Inr (Some (mk v)))) html_cases_v1)) d
           = Inr (Some (Concrete T v))"
proof -
  let ?sw = "switch_on c (by_identity h (map (\<lambda>(n, mk). (n, Inr (Some (mk v)))) html_cases_v1)) d"
  from html_switch_v1_cases [of c h v d]
  consider "c \<notin> Global_Get h ` set html_types_v1"
    | T' where "T' \<in> set html_types_v1" "c = Global_Get h T'" "?sw = Inr (Some (Concrete T' v))"
    by blast
  then show ?thesis
  proof cases
    case 1
    with assms(1,2) show ?thesis by blast
  next
    case 2
    from 2(1,2) assms(3) have "T' = T" by blast
    with 2(3) show ?thesis by blast
  qed
qed

lemma demo_Global_Get_101: "Global_Get demo_host n = Ref 101 \<longleftrightarrow> n = ''HTMLDivElement''"
  unfolding demo_Global_Get by (simp split: if_splits)

lemma demo_wrap_div:
  "wrapHTMLElement demo_host (Ref 12) = Inr (Some (Concrete ''HTMLDivElement'' (Ref 12)))"
  "wrapHTMLElement_v1 demo_host (Ref 12) = Inr (Some (Concrete ''HTMLDivElement'' (Ref 12)))"
proof -
  have t: "''HTMLDivElement'' \<in> set html_types" by (simp add: html_types_def)
  have c: "Ref 101 = Global_Get demo_host ''HTMLDivElement''"
    by (simp add: demo_Global_Get_101 eq_commute [of "Ref 101"])
  have "switch_on (Ref 101) (by_identity demo_host html_cases) BasicHTMLElement (Ref 12)
          = Concrete ''HTMLDivElement'' (Ref 12)"
    using t c by (rule html_switch_hit) (simp_all add: demo_Global_Get_101)
  then show "wrapHTMLElement demo_host (Ref 12) = Inr (Some (Concrete ''HTMLDivElement'' (Ref 12)))"
    by (simp add: wrapHTMLElement_def elementConstructor_Ref demo_props_more)
  have "switch_on (Ref 101)
          (by_identity demo_host (map (\<lambda>(n, mk). (n, Inr (Some (mk (Ref 12))))) html_cases_v1))
          (Inl (UnsupportedElement (render demo_host (Ref 12))))
          = Inr (Some (Concrete ''HTMLDivElement'' (Ref 12)))"
    using demo_names(3) c by (rule html_switch_v1_hit) (simp add: demo_Global_Get_101)
  then show "wrapHTMLElement_v1 demo_host (Ref 12) = Inr (Some (Concrete ''HTMLDivElement'' (Ref 12)))"
    by (simp add: wrapHTMLElement_v1_def demo_props_more)
qed

subsection \<open>Token lists and the property store\<close>

lemma demo_props_tokens:
  "props demo_host (Ref 13) ''className'' = JStr ''a''"
  "props demo_host (Ref 30) ''constructor'' = Ref 109"
  "props demo_host (Ref 31) ''constructor'' = Ref 106"
  "props demo_host (Ref 31) ''value'' = JStr ''x y''"
  "Global_Get demo_host ''DOMSettableTokenList'' = Ref 106"
  by (simp_all add: demo_host_def demo_props_def demo_objects_def Global_Get_def Global_def)



lemma demo_items:
  "Call_item demo_host (Ref 30) 0 = Inr (JStr ''a'')"
  "Call_item demo_host (Ref 30) 5 = Inr Null"
  "Call_item_gopherjs demo_host (Ref 30) 0 = Inr (JStr ''a'')"
  "Call_item_gopherjs demo_host (Ref 30) 5 = Inr Null"
  by (simp_all add: Call_item_def Call_item_gopherjs_def demo_host_def demo_item_def)

subsection \<open>The loops of the snapshot converters\<close>

text \<open>The loops are unfolded one step at a time, by hand.\<close>

declare item_loop.simps [simp del]
declare arrayToObjects_loop.simps [simp del]
declare wrap_item_loop.simps [simp del]

lemma foldl_append_slice:
  "foldl append_slice out xs = (if xs = [] then out else Slice (to_list out @ xs))"
proof (induction xs arbitrary: out)
  case Nil
  show ?case by simp
next
  case (Cons x xs)
  show ?case by (cases out) (simp_all add: Cons.IH)
qed

lemma foldl_append_slice_Nil: "foldl append_slice NilSlice xs = slice_of xs"
  by (simp add: foldl_append_slice slice_of_def)

lemma to_list_slice_of [simp]: "to_list (slice_of xs) = xs"
  by (simp add: slice_of_def)

lemma len_slice_of [simp]: "len (slice_of xs) = length xs"
  by (simp add: len_def)

lemma item_loop_drop:
  assumes "\<forall>k < length objs. Call_item h v (int k) = Inr (objs ! k)"
  shows "i \<le> length objs \<Longrightarrow>
         item_loop h v (int i) (int (length objs)) out = Inr (foldl append_slice out (drop i objs))"
proof (induction "length objs - i" arbitrary: i out)
  case 0
  then have "i = length objs" by simp
  then show ?case by (subst item_loop.simps) simp
next
  case (Suc d)
  then have lt: "i < length objs" by simp
  have c: "Call_item h v (int i) = Inr (objs ! i)" using assms lt by simp
  have d: "drop i objs = objs ! i # drop (Suc i) objs"
    using lt by (simp add: Cons_nth_drop_Suc)
  have "item_loop h v (int i) (int (length objs)) out =
        item_loop h v (int (Suc i)) (int (length objs)) (append_slice out (objs ! i))"
    using lt c by (subst item_loop.simps) (simp add: add.commute)
  also have "\<dots> = Inr (foldl append_slice (append_slice out (objs ! i)) (drop (Suc i) objs))"
    using Suc.hyps(2) lt by (intro Suc.hyps(1)) simp_all
  finally show ?case by (simp add: d)
qed

lemma item_loop_all:
  assumes "\<forall>k < length objs. Call_item h v (int k) = Inr (objs ! k)"
  shows "item_loop h v 0 (int (length objs)) NilSlice = Inr (slice_of objs)"
  using item_loop_drop [OF assms, of 0 NilSlice] by (simp add: foldl_append_slice_Nil)

lemma arrayToObjects_loop_drop:
  assumes "Length h v = Inr (int (length objs))"
    and "\<forall>k < length objs. Index h v (int k) = Inr (objs ! k)"
  shows "i \<le> length objs \<Longrightarrow>
         arrayToObjects_loop h v (int i) out = Inr (foldl append_slice out (drop i objs))"
proof (induction "length objs - i" arbitrary: i out)
  case 0
  then have "i = length objs" by simp
  then show ?case using assms(1) by (subst arrayToObjects_loop.simps) simp
next
  case (Suc d)
  then have lt: "i < length objs" by simp
  have c: "Index h v (int i) = Inr (objs ! i)" using assms lt by simp
  have d: "drop i objs = objs ! i # drop (Suc i) objs"
    using lt by (simp add: Cons_nth_drop_Suc)
  have "arrayToObjects_loop h v (int i) out =
        arrayToObjects_loop h v (int (Suc i)) (append_slice out (objs ! i))"
    using lt c assms(1) by (subst arrayToObjects_loop.simps) (simp add: add.commute)
  also have "\<dots> = Inr (foldl append_slice (append_slice out (objs ! i)) (drop (Suc i) objs))"
    using Suc.hyps(2) lt by (intro Suc.hyps(1)) simp_all
  finally show ?case by (simp add: d)
qed

lemma arrayToObjects_all:
  assumes "Length h v = Inr (int (length objs))"
    and "\<forall>k < length objs. Index h v (int k) = Inr (objs ! k)"
  shows "arrayToObjects h v = Inr (slice_of objs)"
  using arrayToObjects_loop_drop [OF assms, of 0 NilSlice]
  by (simp add: arrayToObjects_def foldl_append_slice_Nil)

lemma wrap_range_foldl:
  "list_all2 (\<lambda>x f. w x = Inr f) xs fs \<Longrightarrow>
   wrap_range w xs out = Inr (foldl append_slice out fs)"
  by (induction xs fs arbitrary: out rule: list_all2_induct) simp_all

lemma wrap_range_all:
  "list_all2 (\<lambda>x f. w x = Inr f) xs fs \<Longrightarrow> wrap_range w xs NilSlice = Inr (slice_of fs)"
  by (simp add: wrap_range_foldl foldl_append_slice_Nil)

lemma wrap_item_loop_drop:
  assumes "\<forall>k < length objs. Call_item_gopherjs h v (int k) = Inr (objs ! k)"
    and "list_all2 (\<lambda>x f. w x = Inr f) objs fs"
  shows "i \<le> length objs \<Longrightarrow>
         wrap_item_loop w h v (int i) (int (length objs)) out
           = Inr (foldl append_slice out (drop i fs))"
proof (induction "length objs - i" arbitrary: i out)
  case 0
  then have "i = length objs" by simp
  moreover have "length fs = length objs" using assms(2) by (simp add: list_all2_lengthD)
  ultimately show ?case by (subst wrap_item_loop.simps) simp
next
  case (Suc d)
  then have lt: "i < length objs" by simp
  have len: "length fs = length objs" using assms(2) by (simp add: list_all2_lengthD)
  have c: "Call_item_gopherjs h v (int i) = Inr (objs ! i)" using assms lt by simp
  have w: "w (objs ! i) = Inr (fs ! i)" using list_all2_nthD [OF assms(2) lt] .
  have d: "drop i fs = fs ! i # drop (Suc i) fs"
    using lt len by (simp add: Cons_nth_drop_Suc)
  have "wrap_item_loop w h v (int i) (int (length objs)) out =
        wrap_item_loop w h v (int (Suc i)) (int (length objs)) (append_slice out (fs ! i))"
    using lt c w by (subst wrap_item_loop.simps) (simp add: add.commute)
  also have "\<dots> = Inr (foldl append_slice (append_slice out (fs ! i)) (drop (Suc i) fs))"
    using Suc.hyps(2) lt by (intro Suc.hyps(1)) simp_all
  finally show ?case by (simp add: d)
qed

lemma wrap_item_loop_all:
  assumes "\<forall>k < length objs. Call_item_gopherjs h v (int k) = Inr (objs ! k)"
    and "list_all2 (\<lambda>x f. w x = Inr f) objs fs"
  shows "wrap_item_loop w h v 0 (int (length objs)) NilSlice = Inr (slice_of fs)"
  using wrap_item_loop_drop [OF assms, of 0 NilSlice] by (simp add: foldl_append_slice_Nil)

lemma wrap_item_loop_no_item:
  "0 < n \<Longrightarrow> Call_item_gopherjs h v 0 = Inl e \<Longrightarrow> wrap_item_loop w h v 0 n out = Inl e"
  by (subst wrap_item_loop.simps) simp

lemma Length_Ref:
  "props h (Ref r) ''length'' = JNum n \<Longrightarrow> Length h (Ref r) = Inr n"
  by (simp add: Length_def)

lemma Call_item_Ref:
  "item_of h (Ref r) i = Some x \<Longrightarrow> Call_item h (Ref r) i = Inr x"
  by (simp add: Call_item_def)

lemma Call_item_gopherjs_Some:
  "v \<noteq> Null \<Longrightarrow> v \<noteq> Undefined \<Longrightarrow> item_of h v i = Some x \<Longrightarrow>
   Call_item_gopherjs h v i = Inr x"
  by (simp add: Call_item_gopherjs_def)

lemma Call_item_gopherjs_None:
  "item_of h v i = None \<Longrightarrow> Call_item_gopherjs h v i = Inl HostError"
  by (simp add: Call_item_gopherjs_def)

lemma nodeListToObjects_array:
  assumes "props h (Ref r) ''constructor'' = Global_Get h ''Array''"
    and "props h (Ref r) ''length'' = JNum (int (length objs))"
    and "\<forall>k < length objs. elems h (Ref r) (int k) = objs ! k"
  shows "nodeListToObjects h (Ref r) = Inr (slice_of objs)"
proof -
  have "arrayToObjects h (Ref r) = Inr (slice_of objs)"
    using assms(2,3) by (intro arrayToObjects_all) (simp_all add: Length_Ref Index_def)
  then show ?thesis using assms(1) by (simp add: nodeListToObjects_def)
qed

lemma nodeListToObjects_items:
  assumes "props h (Ref r) ''constructor'' \<noteq> Global_Get h ''Array''"
    and "props h (Ref r) ''length'' = JNum (int (length objs))"
    and "\<forall>k < length objs. item_of h (Ref r) (int k) = Some (objs ! k)"
  shows "nodeListToObjects h (Ref r) = Inr (slice_of objs)"
proof -
  have "item_loop h (Ref r) 0 (int (length objs)) NilSlice = Inr (slice_of objs)"
    using assms(3) by (intro item_loop_all) (simp add: Call_item_Ref)
  then show ?thesis using assms(1,2) by (simp add: nodeListToObjects_def Int_of_def)
qed

lemma nodeList_v1_items:
  assumes "v \<noteq> Null" and "v \<noteq> Undefined"
    and "props h v ''length'' = JNum (int (length objs))"
    and "\<forall>k < length objs. item_of h v (int k) = Some (objs ! k)"
    and "list_all2 (\<lambda>x f. w x = Inr f) objs fs"
  shows "bnd (Get_gopherjs h v ''length'') (\<lambda>l.
           wrap_item_loop w h v 0 (Int_gopherjs h l) NilSlice) = Inr (slice_of fs)"
proof -
  have "wrap_item_loop w h v 0 (int (length objs)) NilSlice = Inr (slice_of fs)"
    using assms(1,2,4) by (intro wrap_item_loop_all [OF _ assms(5)])
      (simp add: Call_item_gopherjs_Some)
  then show ?thesis using assms(1,2,3) by (simp add: Get_gopherjs_def Int_gopherjs_def)
qed

lemma nodeList_v1_no_item:
  assumes "v \<noteq> Null" and "v \<noteq> Undefined"
    and "0 < Int_gopherjs h (props h v ''length'')" and "item_of h v 0 = None"
  shows "bnd (Get_gopherjs h v ''length'') (\<lambda>l.
           wrap_item_loop w h v 0 (Int_gopherjs h l) NilSlice) = Inl HostError"
  using assms
  by (simp add: Get_gopherjs_def wrap_item_loop_no_item Call_item_gopherjs_None)

lemma wrap_range_panic:
  "k < length xs \<Longrightarrow> (\<forall>j<k. \<exists>f. w (xs ! j) = Inr f) \<Longrightarrow> w (xs ! k) = Inl e \<Longrightarrow>
   wrap_range w xs out = Inl e"
proof (induction xs arbitrary: k out)
  case Nil
  then show ?case by simp
next
  case (Cons x xs)
  show ?case
  proof (cases k)
    case 0
    then show ?thesis using Cons.prems(3) by simp
  next
    case (Suc k')
    from Cons.prems(2) Suc obtain f where f: "w x = Inr f" by fastforce
    have "wrap_range w xs (append_slice out f) = Inl e"
    proof (rule Cons.IH [of k'])
      show "k' < length xs" using Cons.prems(1) Suc by simp
      show "\<forall>j<k'. \<exists>f. w (xs ! j) = Inr f"
      proof (intro allI impI)
        fix j assume "j < k'"
        then have "Suc j < k" using Suc by simp
        with Cons.prems(2) have "\<exists>f. w ((x # xs) ! Suc j) = Inr f" by blast
        then show "\<exists>f. w (xs ! j) = Inr f" by simp
      qed
      show "w (xs ! k') = Inl e" using Cons.prems(3) Suc by simp
    qed
    then show ?thesis using f by simp
  qed
qed

lemma wrap_item_loop_panic_from:
  assumes "\<forall>j < length objs. Call_item_gopherjs h v (int j) = Inr (objs ! j)"
    and "k < length objs" and "\<forall>j<k. \<exists>f. w (objs ! j) = Inr f" and "w (objs ! k) = Inl e"
  shows "i \<le> k \<Longrightarrow> wrap_item_loop w h v (int i) (int (length objs)) out = Inl e"
proof (induction "k - i" arbitrary: i out)
  case 0
  then have ik: "i = k" by simp
  have c: "Call_item_gopherjs h v (int k) = Inr (objs ! k)" using assms(1,2) by simp
  show ?case using ik assms(2,4) c by (subst wrap_item_loop.simps) simp
next
  case (Suc d)
  then have lt: "i < k" by simp
  then have li: "i < length objs" using assms(2) by simp
  have c: "Call_item_gopherjs h v (int i) = Inr (objs ! i)" using assms(1) li by simp
  from assms(3) lt obtain f where f: "w (objs ! i) = Inr f" by blast
  have "wrap_item_loop w h v (int i) (int (length objs)) out =
        wrap_item_loop w h v (int (Suc i)) (int (length objs)) (append_slice out f)"
    using li c f by (subst wrap_item_loop.simps) (simp add: add.commute)
  also have "\<dots> = Inl e"
    using Suc.hyps(2) lt by (intro Suc.hyps(1)) simp_all
  finally show ?case .
qed

lemma nodeList_v1_panic:
  assumes "v \<noteq> Null" and "v \<noteq> Undefined"
    and "props h v ''length'' = JNum (int (length objs))"
    and "\<forall>k < length objs. item_of h v (int k) = Some (objs ! k)"
    and "k < length objs" and "\<forall>j<k. \<exists>f. w (objs ! j) = Inr f" and "w (objs ! k) = Inl e"
  shows "bnd (Get_gopherjs h v ''length'') (\<lambda>l.
           wrap_item_loop w h v 0 (Int_gopherjs h l) NilSlice) = Inl e"
proof -
  have "\<forall>j < length objs. Call_item_gopherjs h v (int j) = Inr (objs ! j)"
    using assms(1,2,4) by (simp add: Call_item_gopherjs_Some)
  from wrap_item_loop_panic_from [OF this assms(5,6,7), of 0 NilSlice]
  have "wrap_item_loop w h v 0 (int (length objs)) NilSlice = Inl e" by simp
  then show ?thesis using assms(1,2,3) by (simp add: Get_gopherjs_def Int_gopherjs_def)
qed

subsection \<open>Wrapping the objects of the concrete host\<close>

lemma demo_wrap_form:
  "wrapHTMLElement demo_host (Ref 11) = Inr (Some (Concrete ''HTMLFormElement'' (Ref 11)))"
  "wrapHTMLElement_v1 demo_host (Ref 11) = Inr (Some (Concrete ''HTMLFormElement'' (Ref 11)))"
proof -
  have t: "''HTMLFormElement'' \<in> set html_types" by (simp add: html_types_def)
  have c: "Ref 100 = Global_Get demo_host ''HTMLFormElement''"
    by (simp add: demo_Global_Get_100 eq_commute [of "Ref 100"])
  have "switch_on (Ref 100) (by_identity demo_host html_cases) BasicHTMLElement (Ref 11)
          = Concrete ''HTMLFormElement'' (Ref 11)"
    using t c by (rule html_switch_hit) (simp_all add: demo_Global_Get_100)
  then show "wrapHTMLElement demo_host (Ref 11) = Inr (Some (Concrete ''HTMLFormElement'' (Ref 11)))"
    by (simp add: wrapHTMLElement_def elementConstructor_Ref demo_props_more)
  have "switch_on (Ref 100)
          (by_identity demo_host (map (\<lambda>(n, mk). (n, Inr (Some (mk (Ref 11))))) html_cases_v1))
          (Inl (UnsupportedElement (render demo_host (Ref 11))))
          = Inr (Some (Concrete ''HTMLFormElement'' (Ref 11)))"
    using demo_names(2) c by (rule html_switch_v1_hit) (simp add: demo_Global_Get_100)
  then show "wrapHTMLElement_v1 demo_host (Ref 11) = Inr (Some (Concrete ''HTMLFormElement'' (Ref 11)))"
    by (simp add: wrapHTMLElement_v1_def demo_props_more)
qed

lemma demo_Text: "Global_Get demo_host ''Text'' = Ref 104"
  by (simp add: demo_Global_Get)

lemma demo_wrapNode:
  "wrapNode demo_host (Ref 11) = Inr (Some (Concrete ''HTMLFormElement'' (Ref 11)))"
  "wrapNode demo_host (Ref 12) = Inr (Some (Concrete ''HTMLDivElement'' (Ref 12)))"
  "wrapElement demo_host (Ref 11) = Inr (Some (Concrete ''HTMLFormElement'' (Ref 11)))"
  "wrapElement demo_host (Ref 12) = Inr (Some (Concrete ''HTMLDivElement'' (Ref 12)))"
  "wrapNode_v1 demo_host (Ref 11) = Inr (Some (Concrete ''HTMLFormElement'' (Ref 11)))"
  "wrapNode_v1 demo_host (Ref 12) = Inr (Some (Concrete ''HTMLDivElement'' (Ref 12)))"
  by (simp_all add: wrapNode_def wrapElement_def wrapNode_v1_def wrapElement_v1_def
      elementConstructor_Ref demo_props_more demo_Text demo_wrap_form demo_wrap_div)

lemma demo_Array: "Global_Get demo_host ''Array'' = Ref 103"
  by (simp add: demo_Global_Get)

lemma demo_lists:
  "props demo_host (Ref 16) ''constructor'' = Ref 108"
  "props demo_host (Ref 16) ''length'' = JNum 2"
  "props demo_host (Ref 17) ''constructor'' = Ref 103"
  "props demo_host (Ref 17) ''length'' = JNum 2"
  "props demo_host (Ref 18) ''constructor'' = Ref 108"
  "props demo_host (Ref 18) ''length'' = JNum 0"
  by (simp_all add: demo_host_def demo_props_def demo_objects_def)

lemma demo_list_items:
  "\<forall>k < length [Ref 11, Ref 12]. item_of demo_host (Ref 16) (int k) = Some ([Ref 11, Ref 12] ! k)"
  "\<forall>k < length [Ref 11, Ref 12]. elems demo_host (Ref 17) (int k) = [Ref 11, Ref 12] ! k"
  "item_of demo_host (Ref 17) 0 = None"
  by (auto simp: less_Suc_eq demo_host_def demo_item_def demo_elems_def)

lemma event_switch_legacy:
  "switch_on name event_cases BasicEvent v =
     (if name \<in> set event_types then ConcreteEvent name v else BasicEvent v)"
proof (cases "name \<in> set event_types")
  case False
  then have "name \<notin> fst ` set event_cases" by (simp add: fst_event_cases)
  then have "switch_on name event_cases BasicEvent = BasicEvent" by (rule switch_on_default)
  then show ?thesis using False by simp
next
  case True
  then have "name \<in> fst ` set event_cases" by (simp add: fst_event_cases)
  then have "(name, switch_on name event_cases BasicEvent) \<in> set event_cases"
    by (rule switch_on_hit)
  then have "switch_on name event_cases BasicEvent = ConcreteEvent name"
    unfolding in_event_cases by blast
  then show ?thesis using True by simp
qed

lemma demo_click:
  "wrapEvent_legacy demo_host (Ref 19) = Inr (Some (ConcreteEvent ''MouseEvent'' (Ref 19)))"
proof -
  have p: "props demo_host (Ref 19) ''constructor'' = Ref 105"
    "props demo_host (Ref 105) ''name'' = JStr ''MouseEvent''"
    by (simp_all add: demo_host_def demo_props_def demo_objects_def)
  have n: "constructor_name demo_host (Ref 19) = Inr ''MouseEvent''"
    by (simp add: constructor_name_def p String_of_def)
  have m: "''MouseEvent'' \<in> set event_types" by (simp add: event_types_def)
  show ?thesis using n m by (simp add: wrapEvent_legacy_def event_switch_legacy)
qed

lemma demo_wrapNode_svg:
  "wrapNode_v1 demo_host (Ref 15) = Inl (UnsupportedElement ''<object>'')"
  "wrapNode_legacy demo_host (Ref 15) = Inl (UnsupportedElement ''SVGSVGElement'')"
proof -
  have l: "wrapHTMLElement_legacy demo_host (Ref 15) = Inl (UnsupportedElement ''SVGSVGElement'')"
    by (simp add: wrapHTMLElement_legacy_def demo_constructor_names html_switch_legacy demo_names)
  then show "wrapNode_legacy demo_host (Ref 15) = Inl (UnsupportedElement ''SVGSVGElement'')"
    by (simp add: wrapNode_legacy_def wrapElement_legacy_def demo_constructor_names)
  have "render demo_host (Ref 15) = ''<object>''" by (simp add: demo_host_def)
  then have "wrapHTMLElement_v1 demo_host (Ref 15) = Inl (UnsupportedElement ''<object>'')"
    using html_switch_v1_cases [of "Ref 107" demo_host "Ref 15"
        "Inl (UnsupportedElement (render demo_host (Ref 15)))"] demo_svg_unrecognized(2)
    by (auto simp: wrapHTMLElement_v1_def demo_props_simps)
  then show "wrapNode_v1 demo_host (Ref 15) = Inl (UnsupportedElement ''<object>'')"
    by (simp add: wrapNode_v1_def wrapElement_v1_def demo_props_simps demo_Text)
qed

lemma demo_svg_list:
  "props demo_host (Ref 21) ''length'' = JNum 1"
  "Call_item_gopherjs demo_host (Ref 21) 0 = Inr (Ref 15)"
  by (simp_all add: demo_host_def demo_props_def demo_objects_def Call_item_gopherjs_def
      demo_item_def)

lemma demo_wrapElement_svg:
  "wrapElement_v1 demo_host (Ref 15) = Inl (UnsupportedElement ''<object>'')"
proof -
  have "render demo_host (Ref 15) = ''<object>''" by (simp add: demo_host_def)
  then have "wrapHTMLElement_v1 demo_host (Ref 15) = Inl (UnsupportedElement ''<object>'')"
    using html_switch_v1_cases [of "Ref 107" demo_host "Ref 15"
        "Inl (UnsupportedElement (render demo_host (Ref 15)))"] demo_svg_unrecognized(2)
    by (auto simp: wrapHTMLElement_v1_def demo_props_simps)
  then show ?thesis by (simp add: wrapElement_v1_def demo_props_simps)
qed

lemma demo_svg_list_items:
  "\<forall>k < length [Ref 15]. item_of demo_host (Ref 21) (int k) = Some ([Ref 15] ! k)"
  by (simp add: demo_host_def demo_item_def)

section \<open>Null and undefined handles\<close>

text \<open>
  Claim C5. For a \<^verbatim>\<open>null\<close> or \<^verbatim>\<open>undefined\<close> handle each wrap entry point
  (\<^verbatim>\<open>wrapNode\<close>, \<^verbatim>\<open>wrapElement\<close>, \<^verbatim>\<open>wrapHTMLElement\<close>, \<^verbatim>\<open>wrapEvent\<close>), in each
  of the three versions, returns \<^verbatim>\<open>nil\<close>: no facade and no panic. The host is
  arbitrary, so the result is fixed before anything is read from it; in particular it
  holds on a host where reading a constructor would fail.
\<close>

theorem wrap_null_undefined:
  assumes "v = Null \<or> v = Undefined"
  shows "wrapNode h v = Inr None \<and> wrapElement h v = Inr None \<and>
         wrapHTMLElement h v = Inr None \<and> wrapEvent h v = Inr None \<and>
         wrapNode_v1 h v = Inr None \<and> wrapElement_v1 h v = Inr None \<and>
         wrapHTMLElement_v1 h v = Inr None \<and> wrapEvent_v1 h v = Inr None \<and>
         wrapNode_legacy h v = Inr None \<and> wrapElement_legacy h v = Inr None \<and>
         wrapHTMLElement_legacy h v = Inr None \<and> wrapEvent_legacy h v = Inr None"
  using assms
  by (simp add: wrapNode_def wrapElement_def wrapHTMLElement_def wrapEvent_def
      wrapNode_v1_def wrapElement_v1_def wrapHTMLElement_v1_def wrapEvent_v1_def
      wrapNode_legacy_def wrapElement_legacy_def wrapHTMLElement_legacy_def
      wrapEvent_legacy_def)

theorem wrap_null_undefined_witness:
  "wrapNode demo_host Null = Inr None \<and> wrapElement demo_host Undefined = Inr None \<and>
   wrapHTMLElement demo_host Null = Inr None \<and> wrapEvent demo_host Undefined = Inr None \<and>
   wrapHTMLElement_v1 demo_host Undefined = Inr None \<and>
   wrapEvent_legacy demo_host Null = Inr None"
  using wrap_null_undefined [of Null demo_host] wrap_null_undefined [of Undefined demo_host]
  by simp

section \<open>Unrecognized element types\<close>

text \<open>
  Claim C1, as amended. In \<^verbatim>\<open>src/v2/dom_go113.go\<close>, for every handle that is an
  object and whose \<^verbatim>\<open>node\<close> property is \<^verbatim>\<open>undefined\<close> or an object,
  \<^verbatim>\<open>wrapHTMLElement\<close>, \<^verbatim>\<open>wrapElement\<close> and \<^verbatim>\<open>wrapNode\<close> return a facade over that
  handle (so one with the methods of \<^verbatim>\<open>BasicNode\<close>), and for a constructor that is none
  of those looked up the facade is the generic \<^verbatim>\<open>BasicHTMLElement\<close>. In
  \<^verbatim>\<open>src/unnamed/part_001\<close> and \<^verbatim>\<open>src/dom.go\<close>, \<^verbatim>\<open>wrapHTMLElement\<close> returns a facade
  exactly when the tag of the handle is one of the 68 it knows, and otherwise reaches
  its \<^verbatim>\<open>"Unsupported HTML element type"\<close> panic.
\<close>

theorem wrapHTMLElement_total_or_unsupported:
  "(props h (Ref r) ''node'' = Undefined \<or> (\<exists>r'. props h (Ref r) ''node'' = Ref r') \<longrightarrow>
      (\<exists>f. wrapHTMLElement h (Ref r) = Inr (Some f) \<and> Underlying f = Ref r \<and>
           wrapElement h (Ref r) = Inr (Some f)) \<and>
      (\<exists>g. wrapNode h (Ref r) = Inr (Some g) \<and> Underlying g = Ref r)) \<and>
   (elementConstructor h (Ref r) = Inr c \<and> c \<notin> Global_Get h ` set html_types \<longrightarrow>
      wrapHTMLElement h (Ref r) = Inr (Some (BasicHTMLElement (Ref r)))) \<and>
   (v \<noteq> Null \<and> v \<noteq> Undefined \<longrightarrow>
      (props h v ''constructor'' \<in> Global_Get h ` set html_types_v1 \<longrightarrow>
         (\<exists>T \<in> set html_types_v1. wrapHTMLElement_v1 h v = Inr (Some (Concrete T v)))) \<and>
      (props h v ''constructor'' \<notin> Global_Get h ` set html_types_v1 \<longrightarrow>
         wrapHTMLElement_v1 h v = Inl (UnsupportedElement (render h v)))) \<and>
   (v \<noteq> Null \<and> v \<noteq> Undefined \<and> constructor_name h v = Inr name \<longrightarrow>
      wrapHTMLElement_legacy h v =
        (if name \<in> set html_types_v1 then Inr (Some (Concrete name v))
         else Inl (UnsupportedElement name)))"
proof (intro conjI impI)
  assume a: "props h (Ref r) ''node'' = Undefined \<or> (\<exists>r'. props h (Ref r) ''node'' = Ref r')"
  then obtain c where c: "elementConstructor h (Ref r) = Inr c"
    by (auto simp: elementConstructor_Ref)
  let ?f = "switch_on c (by_identity h html_cases) BasicHTMLElement (Ref r)"
  have w: "wrapHTMLElement h (Ref r) = Inr (Some ?f)"
    using c by (simp add: wrapHTMLElement_def)
  have u: "Underlying ?f = Ref r" by (rule html_switch_Underlying)
  have e: "wrapElement h (Ref r) = Inr (Some ?f)"
    using c w by (simp add: wrapElement_def)
  show "\<exists>f. wrapHTMLElement h (Ref r) = Inr (Some f) \<and> Underlying f = Ref r \<and>
           wrapElement h (Ref r) = Inr (Some f)"
    using w u e by blast
  show "\<exists>g. wrapNode h (Ref r) = Inr (Some g) \<and> Underlying g = Ref r"
    using c e u by (cases "c = Global_Get h ''Text''") (auto simp: wrapNode_def)
next
  assume "elementConstructor h (Ref r) = Inr c \<and> c \<notin> Global_Get h ` set html_types"
  then show "wrapHTMLElement h (Ref r) = Inr (Some (BasicHTMLElement (Ref r)))"
    using html_switch_cases [of c h "Ref r"] by (auto simp: wrapHTMLElement_def)
next
  assume "v \<noteq> Null \<and> v \<noteq> Undefined"
    and "props h v ''constructor'' \<in> Global_Get h ` set html_types_v1"
  then show "\<exists>T \<in> set html_types_v1. wrapHTMLElement_v1 h v = Inr (Some (Concrete T v))"
    using html_switch_v1_cases [of "props h v ''constructor''" h v "Inl (UnsupportedElement (render h v))"]
    by (auto simp: wrapHTMLElement_v1_def Get_gopherjs_def)
next
  assume "v \<noteq> Null \<and> v \<noteq> Undefined"
    and "props h v ''constructor'' \<notin> Global_Get h ` set html_types_v1"
  then show "wrapHTMLElement_v1 h v = Inl (UnsupportedElement (render h v))"
    using html_switch_v1_cases [of "props h v ''constructor''" h v "Inl (UnsupportedElement (render h v))"]
    by (auto simp: wrapHTMLElement_v1_def Get_gopherjs_def)
next
  assume "v \<noteq> Null \<and> v \<noteq> Undefined \<and> constructor_name h v = Inr name"
  then show "wrapHTMLElement_legacy h v =
        (if name \<in> set html_types_v1 then Inr (Some (Concrete name v))
         else Inl (UnsupportedElement name))"
    by (simp add: wrapHTMLElement_legacy_def html_switch_legacy)
qed


theorem wrapHTMLElement_total_or_unsupported_witness:
  "wrapHTMLElement demo_host (Ref 15) = Inr (Some (BasicHTMLElement (Ref 15))) \<and>
   (\<exists>g. wrapNode demo_host (Ref 15) = Inr (Some g) \<and> Underlying g = Ref 15) \<and>
   wrapHTMLElement_legacy demo_host (Ref 11) = Inr (Some (Concrete ''HTMLFormElement'' (Ref 11)))"
proof -
  have e: "elementConstructor demo_host (Ref 15) = Inr (Ref 107)"
    by (simp add: elementConstructor_Ref demo_props_simps)
  show ?thesis
    using wrapHTMLElement_total_or_unsupported
        [where h = demo_host and r = 15 and c = "Ref 107" and v = "Ref 15"
           and name = "''SVGSVGElement''"]
      wrapHTMLElement_total_or_unsupported
        [where h = demo_host and r = 11 and c = "Ref 100" and v = "Ref 11"
           and name = "''HTMLFormElement''"]
      e demo_svg_unrecognized demo_constructor_names demo_names
    by (simp add: demo_props_simps)
qed

text \<open>
  The claim as it was stated, that the failure branch cannot be reached from a handle
  that is not \<^verbatim>\<open>null\<close> or \<^verbatim>\<open>undefined\<close>, fails in \<^verbatim>\<open>src/dom.go\<close> and in
  \<^verbatim>\<open>src/unnamed/part_001\<close> on an SVG element. In \<^verbatim>\<open>src/v2/dom_go113.go\<close> the only
  handles that are objects and get no facade are those whose \<^verbatim>\<open>node\<close> property is
  neither \<^verbatim>\<open>undefined\<close> nor an object: \<^verbatim>\<open>elementConstructor\<close> reads the constructor of
  that property.
\<close>

theorem wrapHTMLElement_unsupported_counterexample:
  "wrapHTMLElement_legacy demo_host (Ref 15) = Inl (UnsupportedElement ''SVGSVGElement'') \<and>
   wrapHTMLElement_v1 demo_host (Ref 15) = Inl (UnsupportedElement ''<object>'') \<and>
   wrapHTMLElement demo_host (Ref 22) = Inl HostError"
proof (intro conjI)
  show "wrapHTMLElement_legacy demo_host (Ref 15) = Inl (UnsupportedElement ''SVGSVGElement'')"
    by (simp add: wrapHTMLElement_legacy_def demo_constructor_names html_switch_legacy demo_names)
  have "render demo_host (Ref 15) = ''<object>''" by (simp add: demo_host_def)
  then show "wrapHTMLElement_v1 demo_host (Ref 15) = Inl (UnsupportedElement ''<object>'')"
    using html_switch_v1_cases [of "Ref 107" demo_host "Ref 15"
        "Inl (UnsupportedElement (render demo_host (Ref 15)))"] demo_svg_unrecognized(2)
    by (auto simp: wrapHTMLElement_v1_def demo_props_simps)
  have "props demo_host (Ref 22) ''node'' = Null"
    by (simp add: demo_host_def demo_props_def demo_objects_def)
  then show "wrapHTMLElement demo_host (Ref 22) = Inl HostError"
    by (simp add: wrapHTMLElement_def elementConstructor_Ref Get_def)
qed

section \<open>Unrecognized event types\<close>

text \<open>
  Claim C9. For an event handle that is not \<^verbatim>\<open>null\<close> or \<^verbatim>\<open>undefined\<close> and whose
  constructor is none of the constructors \<^verbatim>\<open>wrapEvent\<close> looks up (in \<^verbatim>\<open>src/dom.go\<close>:
  whose constructor's name is none of the names it compares with), \<^verbatim>\<open>wrapEvent\<close>
  takes the default case and returns the \<^verbatim>\<open>BasicEvent\<close> over the handle, without a
  panic. A handle of \<^verbatim>\<open>syscall/js\<close> that has a constructor is an object.
\<close>

theorem wrapEvent_unrecognized:
  "(props h (Ref r) ''constructor'' \<notin> Global_Get h ` set event_types \<longrightarrow>
      wrapEvent h (Ref r) = Inr (Some (BasicEvent (Ref r)))) \<and>
   (v \<noteq> Null \<and> v \<noteq> Undefined \<and> props h v ''constructor'' \<notin> Global_Get h ` set event_types \<longrightarrow>
      wrapEvent_v1 h v = Inr (Some (BasicEvent v))) \<and>
   (v \<noteq> Null \<and> v \<noteq> Undefined \<and> constructor_name h v = Inr name \<and> name \<notin> set event_types \<longrightarrow>
      wrapEvent_legacy h v = Inr (Some (BasicEvent v)))"
  by (simp add: wrapEvent_def wrapEvent_v1_def wrapEvent_legacy_def Get_gopherjs_def
      switch_on_default fst_by_identity fst_event_cases)

theorem wrapEvent_unrecognized_witness:
  "wrapEvent demo_host (Ref 20) = Inr (Some (BasicEvent (Ref 20))) \<and>
   wrapEvent_v1 demo_host (Ref 20) = Inr (Some (BasicEvent (Ref 20))) \<and>
   wrapEvent_legacy demo_host (Ref 20) = Inr (Some (BasicEvent (Ref 20)))"
proof -
  have n: "''SpeechSynthesisEvent'' \<notin> set event_types"
    by (simp add: event_types_def)
  have c: "props demo_host (Ref 20) ''constructor'' \<notin> Global_Get demo_host ` set event_types"
    using n by (auto simp: demo_props_simps demo_Global_Get_110 eq_commute [of "Ref 110"])
  have k: "constructor_name demo_host (Ref 20) = Inr ''SpeechSynthesisEvent''"
    by (simp add: constructor_name_def demo_props_simps String_of_def)
  show ?thesis
    using wrapEvent_unrecognized [of demo_host 20 "Ref 20" "''SpeechSynthesisEvent''"] n c k
    by simp
qed

section \<open>The form of a control\<close>

text \<open>
  The resolver of the \<^verbatim>\<open>labels\<close> relationship is not like \<^verbatim>\<open>getForm\<close> in this: it
  passes what it reads to \<^verbatim>\<open>nodeListToElements\<close>, which reads the constructor before
  anything else, so an absent relationship is a panic.
\<close>

lemma getLabels_absent:
  "Get h v ''labels'' = Inr x \<Longrightarrow> x = Null \<or> x = Undefined \<Longrightarrow> getLabels h v = Inl HostError"
  by (auto simp: getLabels_def nodeListToElements_def nodeListToObjects_def Get_def)

text \<open>
  Claim C2. \<^verbatim>\<open>getForm\<close> returns \<^verbatim>\<open>nil\<close> when the \<^verbatim>\<open>form\<close> property read from the
  handle is \<^verbatim>\<open>null\<close> or \<^verbatim>\<open>undefined\<close>. When the property holds a value whose type
  tag is not the constructor \<^verbatim>\<open>HTMLFormElement\<close>, \<^verbatim>\<open>getForm\<close> panics; where
  \<^verbatim>\<open>wrapHTMLElement\<close> has returned a facade of another type the panic is the failed
  type assertion. A result that is not \<^verbatim>\<open>nil\<close> is the \<^verbatim>\<open>*HTMLFormElement\<close> over the
  value read, whose tag is \<^verbatim>\<open>HTMLFormElement\<close>: nothing is coerced. The same holds for
  \<^verbatim>\<open>getForm\<close> of \<^verbatim>\<open>src/unnamed/part_001\<close>.
\<close>

theorem getForm_none_or_fatal:
  "(Get h v ''form'' = Inr x \<and> (x = Null \<or> x = Undefined) \<longrightarrow> getForm h v = Inr None) \<and>
   (Get h v ''form'' = Inr x \<and> x \<noteq> Null \<and> x \<noteq> Undefined \<and>
      elementConstructor h x \<noteq> Inr (Global_Get h ''HTMLFormElement'') \<longrightarrow>
      (\<exists>e. getForm h v = Inl e)) \<and>
   (Get h v ''form'' = Inr x \<and> wrapHTMLElement h x = Inr (Some f) \<and>
      f \<noteq> Concrete ''HTMLFormElement'' x \<longrightarrow> getForm h v = Inl TypeAssertion) \<and>
   (getForm h v = Inr (Some f) \<longrightarrow>
      (\<exists>y. Get h v ''form'' = Inr y \<and> f = Concrete ''HTMLFormElement'' y \<and>
           elementConstructor h y = Inr (Global_Get h ''HTMLFormElement''))) \<and>
   (Get_gopherjs h v ''form'' = Inr x \<and> (x = Null \<or> x = Undefined) \<longrightarrow>
      getForm_v1 h v = Inr None) \<and>
   (Get_gopherjs h v ''form'' = Inr x \<and> x \<noteq> Null \<and> x \<noteq> Undefined \<and>
      props h x ''constructor'' \<noteq> Global_Get h ''HTMLFormElement'' \<longrightarrow>
      (\<exists>e. getForm_v1 h v = Inl e)) \<and>
   (Get_gopherjs h v ''form'' = Inr x \<and> wrapHTMLElement_v1 h x = Inr (Some f) \<and>
      f \<noteq> Concrete ''HTMLFormElement'' x \<longrightarrow> getForm_v1 h v = Inl TypeAssertion)"
proof (intro conjI impI)
  assume "Get h v ''form'' = Inr x \<and> (x = Null \<or> x = Undefined)"
  then show "getForm h v = Inr None"
    by (auto simp: getForm_def wrapHTMLElement_def)
next
  assume a: "Get h v ''form'' = Inr x \<and> x \<noteq> Null \<and> x \<noteq> Undefined \<and>
      elementConstructor h x \<noteq> Inr (Global_Get h ''HTMLFormElement'')"
  show "\<exists>e. getForm h v = Inl e"
  proof (cases "wrapHTMLElement h x")
    case (Inl e)
    then show ?thesis using a by (simp add: getForm_def)
  next
    case (Inr form)
    with a wrapHTMLElement_not_None [of x h] obtain f where f: "form = Some f"
      by (cases form) auto
    from wrapHTMLElement_Some [of h x f] Inr f a
    have "f \<noteq> Concrete ''HTMLFormElement'' x" by auto
    moreover from Inr f have "Underlying f = x"
      using wrapHTMLElement_Underlying [of h x f] by simp
    ultimately have "assert_type ''HTMLFormElement'' (Some f) = Inl TypeAssertion"
      by (simp add: assert_type_other)
    then show ?thesis using a Inr f by (simp add: getForm_def)
  qed
next
  assume a: "Get h v ''form'' = Inr x \<and> wrapHTMLElement h x = Inr (Some f) \<and>
      f \<noteq> Concrete ''HTMLFormElement'' x"
  from a have "Underlying f = x" using wrapHTMLElement_Underlying [of h x f] by simp
  with a have "assert_type ''HTMLFormElement'' (Some f) = Inl TypeAssertion"
    by (simp add: assert_type_other)
  then show "getForm h v = Inl TypeAssertion" using a by (simp add: getForm_def)
next
  assume a: "getForm h v = Inr (Some f)"
  then obtain y where y: "Get h v ''form'' = Inr y"
    by (cases "Get h v ''form''") (auto simp: getForm_def)
  with a obtain form where w: "wrapHTMLElement h y = Inr form"
    by (cases "wrapHTMLElement h y") (auto simp: getForm_def)
  with a y obtain g where g: "form = Some g"
    by (cases form) (auto simp: getForm_def)
  with a y w have "assert_type ''HTMLFormElement'' (Some g) = Inr f"
    by (cases "assert_type ''HTMLFormElement'' (Some g)") (auto simp: getForm_def)
  then have fg: "f = g \<and> (\<exists>u. g = Concrete ''HTMLFormElement'' u)"
    by (auto simp: assert_type_Inr)
  with wrapHTMLElement_Some [of h y g] w g
  have "f = Concrete ''HTMLFormElement'' y \<and>
        elementConstructor h y = Inr (Global_Get h ''HTMLFormElement'')" by auto
  with y show "\<exists>y. Get h v ''form'' = Inr y \<and> f = Concrete ''HTMLFormElement'' y \<and>
           elementConstructor h y = Inr (Global_Get h ''HTMLFormElement'')" by blast
next
  assume "Get_gopherjs h v ''form'' = Inr x \<and> (x = Null \<or> x = Undefined)"
  then show "getForm_v1 h v = Inr None"
    by (auto simp: getForm_v1_def wrapHTMLElement_v1_def)
next
  assume a: "Get_gopherjs h v ''form'' = Inr x \<and> x \<noteq> Null \<and> x \<noteq> Undefined \<and>
      props h x ''constructor'' \<noteq> Global_Get h ''HTMLFormElement''"
  show "\<exists>e. getForm_v1 h v = Inl e"
  proof (cases "wrapHTMLElement_v1 h x")
    case (Inl e)
    then show ?thesis using a by (simp add: getForm_v1_def)
  next
    case (Inr form)
    with a wrapHTMLElement_v1_not_None [of x h] obtain f where f: "form = Some f"
      by (cases form) auto
    from wrapHTMLElement_v1_Some [of h x f] Inr f a
    have "f \<noteq> Concrete ''HTMLFormElement'' x" by auto
    moreover from Inr f have "Underlying f = x"
      using wrapHTMLElement_v1_Underlying [of h x f] by simp
    ultimately have "assert_type ''HTMLFormElement'' (Some f) = Inl TypeAssertion"
      by (simp add: assert_type_other)
    then show ?thesis using a Inr f by (simp add: getForm_v1_def)
  qed
next
  assume a: "Get_gopherjs h v ''form'' = Inr x \<and> wrapHTMLElement_v1 h x = Inr (Some f) \<and>
      f \<noteq> Concrete ''HTMLFormElement'' x"
  from a have "Underlying f = x" using wrapHTMLElement_v1_Underlying [of h x f] by simp
  with a have "assert_type ''HTMLFormElement'' (Some f) = Inl TypeAssertion"
    by (simp add: assert_type_other)
  then show "getForm_v1 h v = Inl TypeAssertion" using a by (simp add: getForm_v1_def)
qed

theorem getForm_none_or_fatal_witness:
  "getForm demo_host (Ref 15) = Inr None \<and> getForm demo_host (Ref 14) = Inl TypeAssertion \<and>
   getForm_v1 demo_host (Ref 15) = Inr None \<and> getForm_v1 demo_host (Ref 14) = Inl TypeAssertion"
  using getForm_none_or_fatal [where h = demo_host and v = "Ref 15" and x = Undefined]
    getForm_none_or_fatal [where h = demo_host and v = "Ref 14" and x = "Ref 12"
      and f = "Concrete ''HTMLDivElement'' (Ref 12)"]
    demo_wrap_div
  by (simp add: demo_props_more)

section \<open>TokenList as a string\<close>

text \<open>
  Claim C4. \<^verbatim>\<open>TokenList.String\<close> and \<^verbatim>\<open>TokenList.SetString\<close> choose in this order:
  when the name \<^verbatim>\<open>sa\<close> of a string attribute was given (it is not empty), that
  attribute of the owning object is read or written with \<^verbatim>\<open>Get\<close> or \<^verbatim>\<open>Set\<close>, whatever
  the token list is; otherwise, when the constructor of the token list object is the
  global \<^verbatim>\<open>DOMSettableTokenList\<close>, its \<^verbatim>\<open>value\<close> is read or written; otherwise
  \<^verbatim>\<open>String\<close> returns the empty string and \<^verbatim>\<open>SetString\<close> panics. In both versions.
\<close>

theorem TokenList_string_precedence:
  "(sa tk \<noteq> '''' \<longrightarrow>
      TokenList_String h tk = bnd (Get h (obj tk) (sa tk)) (\<lambda>x. Inr (String_of h x)) \<and>
      TokenList_SetString h tk s = Set_prop h (obj tk) (sa tk) (JStr s) \<and>
      TokenList_String_v1 h tk = bnd (Get_gopherjs h (obj tk) (sa tk)) (\<lambda>x. Inr (String_of h x)) \<and>
      TokenList_SetString_v1 h tk s = Set_prop h (obj tk) (sa tk) (JStr s)) \<and>
   (sa tk = '''' \<and> dtl tk = Ref r \<and>
      props h (Ref r) ''constructor'' = Global_Get h ''DOMSettableTokenList'' \<longrightarrow>
      TokenList_String h tk = Inr (String_of h (props h (Ref r) ''value'')) \<and>
      TokenList_SetString h tk s = Set_prop h (Ref r) ''value'' (JStr s) \<and>
      TokenList_String_v1 h tk = Inr (String_of h (props h (Ref r) ''value'')) \<and>
      TokenList_SetString_v1 h tk s = Set_prop h (Ref r) ''value'' (JStr s)) \<and>
   (sa tk = '''' \<and> dtl tk = Ref r \<and>
      props h (Ref r) ''constructor'' \<noteq> Global_Get h ''DOMSettableTokenList'' \<longrightarrow>
      TokenList_String h tk = Inr '''' \<and> TokenList_SetString h tk s = Inl NoSetString \<and>
      TokenList_String_v1 h tk = Inr '''' \<and> TokenList_SetString_v1 h tk s = Inl NoSetString)"
  by (simp add: TokenList_String_def TokenList_SetString_def TokenList_String_v1_def
      TokenList_SetString_v1_def)

theorem TokenList_string_precedence_witness:
  "TokenList_String demo_host \<lparr>dtl = Ref 31, obj = Ref 13, sa = ''className''\<rparr> = Inr ''a'' \<and>
   TokenList_String demo_host \<lparr>dtl = Ref 31, obj = Ref 13, sa = ''''\<rparr> = Inr ''x y'' \<and>
   TokenList_String demo_host \<lparr>dtl = Ref 30, obj = Ref 13, sa = ''''\<rparr> = Inr '''' \<and>
   TokenList_SetString demo_host \<lparr>dtl = Ref 30, obj = Ref 13, sa = ''''\<rparr> ''b'' = Inl NoSetString"
  using
    TokenList_string_precedence
      [where h = demo_host and tk = "\<lparr>dtl = Ref 31, obj = Ref 13, sa = ''className''\<rparr>"]
    TokenList_string_precedence
      [where h = demo_host and tk = "\<lparr>dtl = Ref 31, obj = Ref 13, sa = ''''\<rparr>" and r = 31]
    TokenList_string_precedence
      [where h = demo_host and tk = "\<lparr>dtl = Ref 30, obj = Ref 13, sa = ''''\<rparr>" and r = 30
         and s = "''b''"]
  by (simp add: demo_props_tokens String_of_def)



text \<open>
  Claim C10. For every index, whatever the host's \<^verbatim>\<open>item\<close> returns,
  \<^verbatim>\<open>TokenList.Item\<close> returns a string: the empty string when the host returned
  \<^verbatim>\<open>null\<close> or \<^verbatim>\<open>undefined\<close> (as it does at and past the length), without converting
  that value, and the conversion of the value otherwise.
\<close>

theorem TokenList_Item_total:
  "(Call_item h (dtl tk) idx = Inr x \<longrightarrow>
      TokenList_Item h tk idx = Inr (if x = Null \<or> x = Undefined then '''' else String_of h x)) \<and>
   (Call_item_gopherjs h (dtl tk) idx = Inr x \<longrightarrow>
      TokenList_Item_v1 h tk idx =
        Inr (if x = Null \<or> x = Undefined then '''' else String_of h x))"
  by (simp add: TokenList_Item_def TokenList_Item_v1_def toString_def)

theorem TokenList_Item_total_witness:
  "TokenList_Item demo_host \<lparr>dtl = Ref 30, obj = Ref 13, sa = ''className''\<rparr> 0 = Inr ''a'' \<and>
   TokenList_Item demo_host \<lparr>dtl = Ref 30, obj = Ref 13, sa = ''className''\<rparr> 5 = Inr '''' \<and>
   TokenList_Item_v1 demo_host \<lparr>dtl = Ref 30, obj = Ref 13, sa = ''className''\<rparr> 5 = Inr ''''"
  using
    TokenList_Item_total
      [where h = demo_host and tk = "\<lparr>dtl = Ref 30, obj = Ref 13, sa = ''className''\<rparr>"
         and idx = 0 and x = "JStr ''a''"]
    TokenList_Item_total
      [where h = demo_host and tk = "\<lparr>dtl = Ref 30, obj = Ref 13, sa = ''className''\<rparr>"
         and idx = 5 and x = Null]
  by (simp add: demo_items String_of_def)

section \<open>Snapshots of host collections\<close>

text \<open>
  Claim C7, as amended. In \<^verbatim>\<open>src/v2/dom_go113.go\<close>, \<^verbatim>\<open>nodeListToObjects\<close> tells the two
  shapes of a host collection apart: when the constructor of the collection is the
  global \<^verbatim>\<open>Array\<close> it reads the elements by subscript, as many as \<^verbatim>\<open>Length()\<close> says,
  and never calls \<^verbatim>\<open>item\<close>; otherwise it calls \<^verbatim>\<open>item(i)\<close> for each \<open>i\<close> below the
  \<^verbatim>\<open>length\<close> property and never subscripts. Collections of the two shapes with the
  same contents give the same sequence, which is a value and so does not follow the
  host afterwards. The converters of \<^verbatim>\<open>src/dom.go\<close> and \<^verbatim>\<open>src/unnamed/part_001\<close> do not
  look at the constructor: they call \<^verbatim>\<open>item\<close>, and panic where the host has no such
  method.
\<close>

theorem nodeListToObjects_shapes:
  "(props h (Ref r) ''constructor'' = Global_Get h ''Array'' \<and>
      props h (Ref r) ''length'' = JNum (int (length objs)) \<and>
      (\<forall>k < length objs. elems h (Ref r) (int k) = objs ! k) \<longrightarrow>
        nodeListToObjects h (Ref r) = Inr (slice_of objs)) \<and>
   (props h (Ref r) ''constructor'' \<noteq> Global_Get h ''Array'' \<and>
      props h (Ref r) ''length'' = JNum (int (length objs)) \<and>
      (\<forall>k < length objs. item_of h (Ref r) (int k) = Some (objs ! k)) \<longrightarrow>
        nodeListToObjects h (Ref r) = Inr (slice_of objs)) \<and>
   (v \<noteq> Null \<and> v \<noteq> Undefined \<and> 0 < Int_gopherjs h (props h v ''length'') \<and>
      item_of h v 0 = None \<longrightarrow>
        nodeListToNodes_v1 h v = Inl HostError \<and> nodeListToElements_v1 h v = Inl HostError \<and>
        nodeListToNodes_legacy h v = Inl HostError \<and>
        nodeListToElements_legacy h v = Inl HostError)"
  by (simp add: nodeListToObjects_array nodeListToObjects_items nodeList_v1_no_item
      nodeListToNodes_v1_def nodeListToElements_v1_def nodeListToNodes_legacy_def
      nodeListToElements_legacy_def)

theorem nodeListToObjects_shapes_witness:
  "nodeListToObjects demo_host (Ref 17) = Inr (Slice [Ref 11, Ref 12]) \<and>
   nodeListToObjects demo_host (Ref 16) = Inr (Slice [Ref 11, Ref 12]) \<and>
   nodeListToElements_v1 demo_host (Ref 17) = Inl HostError"
  using
    nodeListToObjects_shapes
      [where h = demo_host and r = 17 and objs = "[Ref 11, Ref 12]" and v = "Ref 17"]
    nodeListToObjects_shapes
      [where h = demo_host and r = 16 and objs = "[Ref 11, Ref 12]" and v = "Ref 17"]
    demo_list_items
  by (simp add: demo_lists demo_Array slice_of_def Int_gopherjs_def)

text \<open>
  The claim as it was stated fails for the converters of \<^verbatim>\<open>src/unnamed/part_001\<close> and
  \<^verbatim>\<open>src/dom.go\<close>: on a collection whose constructor is \<^verbatim>\<open>Array\<close> they do not subscript
  but call \<^verbatim>\<open>item\<close>, which an \<^verbatim>\<open>Array\<close> does not have.
\<close>

theorem nodeListToNodes_v1_array_counterexample:
  "props demo_host (Ref 17) ''constructor'' = Global_Get demo_host ''Array'' \<and>
   nodeListToNodes_v1 demo_host (Ref 17) = Inl HostError \<and>
   nodeListToNodes_legacy demo_host (Ref 17) = Inl HostError"
proof -
  have a: "nodeListToNodes_v1 demo_host (Ref 17) = Inl HostError"
    unfolding nodeListToNodes_v1_def
    by (rule nodeList_v1_no_item) (simp_all add: demo_lists Int_gopherjs_def demo_list_items)
  have b: "nodeListToNodes_legacy demo_host (Ref 17) = Inl HostError"
    unfolding nodeListToNodes_legacy_def
    by (rule nodeList_v1_no_item) (simp_all add: demo_lists Int_gopherjs_def demo_list_items)
  show ?thesis using a b by (simp add: demo_lists demo_Array)
qed

text \<open>
  Claim C6, as amended. For a host collection whose \<^verbatim>\<open>length\<close> is \<open>N\<close> and whose
  items wrap without a panic, \<^verbatim>\<open>nodeListToNodes\<close> and \<^verbatim>\<open>nodeListToElements\<close> (of each
  version, and in v2 for both shapes of collection) return a slice of exactly \<open>N\<close>
  facades whose \<open>i\<close>-th entry is the wrap of the \<open>i\<close>-th item of the host
  (\<open>list_all2\<close> relates the items and the facades position by position). When the
  wrap of an item panics, the converter panics with it: with the panic of the first
  such item, \<open>k\<close>. For a collection of length 0 the slice returned has length zero
  and is Go's \<^verbatim>\<open>nil\<close> slice.
\<close>

theorem nodeList_snapshot:
  "(props h (Ref r) ''constructor'' \<noteq> Global_Get h ''Array'' \<and>
      props h (Ref r) ''length'' = JNum (int (length objs)) \<and>
      (\<forall>k < length objs. item_of h (Ref r) (int k) = Some (objs ! k)) \<longrightarrow>
        (list_all2 (\<lambda>x f. wrapNode h x = Inr f) objs fs \<longrightarrow>
           nodeListToNodes h (Ref r) = Inr (slice_of fs)) \<and>
        (list_all2 (\<lambda>x f. wrapElement h x = Inr f) objs fs \<longrightarrow>
           nodeListToElements h (Ref r) = Inr (slice_of fs)) \<and>
        (k < length objs \<and> (\<forall>j<k. \<exists>f. wrapNode h (objs ! j) = Inr f) \<and>
           wrapNode h (objs ! k) = Inl e \<longrightarrow> nodeListToNodes h (Ref r) = Inl e) \<and>
        (k < length objs \<and> (\<forall>j<k. \<exists>f. wrapElement h (objs ! j) = Inr f) \<and>
           wrapElement h (objs ! k) = Inl e \<longrightarrow> nodeListToElements h (Ref r) = Inl e)) \<and>
   (props h (Ref r) ''constructor'' = Global_Get h ''Array'' \<and>
      props h (Ref r) ''length'' = JNum (int (length objs)) \<and>
      (\<forall>k < length objs. elems h (Ref r) (int k) = objs ! k) \<longrightarrow>
        (list_all2 (\<lambda>x f. wrapNode h x = Inr f) objs fs \<longrightarrow>
           nodeListToNodes h (Ref r) = Inr (slice_of fs)) \<and>
        (list_all2 (\<lambda>x f. wrapElement h x = Inr f) objs fs \<longrightarrow>
           nodeListToElements h (Ref r) = Inr (slice_of fs)) \<and>
        (k < length objs \<and> (\<forall>j<k. \<exists>f. wrapNode h (objs ! j) = Inr f) \<and>
           wrapNode h (objs ! k) = Inl e \<longrightarrow> nodeListToNodes h (Ref r) = Inl e) \<and>
        (k < length objs \<and> (\<forall>j<k. \<exists>f. wrapElement h (objs ! j) = Inr f) \<and>
           wrapElement h (objs ! k) = Inl e \<longrightarrow> nodeListToElements h (Ref r) = Inl e)) \<and>
   (v \<noteq> Null \<and> v \<noteq> Undefined \<and> props h v ''length'' = JNum (int (length objs)) \<and>
      (\<forall>k < length objs. item_of h v (int k) = Some (objs ! k)) \<longrightarrow>
        (list_all2 (\<lambda>x f. wrapNode_v1 h x = Inr f) objs fs \<longrightarrow>
           nodeListToNodes_v1 h v = Inr (slice_of fs)) \<and>
        (list_all2 (\<lambda>x f. wrapElement_v1 h x = Inr f) objs fs \<longrightarrow>
           nodeListToElements_v1 h v = Inr (slice_of fs)) \<and>
        (list_all2 (\<lambda>x f. wrapNode_legacy h x = Inr f) objs fs \<longrightarrow>
           nodeListToNodes_legacy h v = Inr (slice_of fs)) \<and>
        (list_all2 (\<lambda>x f. wrapElement_legacy h x = Inr f) objs fs \<longrightarrow>
           nodeListToElements_legacy h v = Inr (slice_of fs)) \<and>
        (k < length objs \<and> (\<forall>j<k. \<exists>f. wrapNode_v1 h (objs ! j) = Inr f) \<and>
           wrapNode_v1 h (objs ! k) = Inl e \<longrightarrow> nodeListToNodes_v1 h v = Inl e) \<and>
        (k < length objs \<and> (\<forall>j<k. \<exists>f. wrapElement_v1 h (objs ! j) = Inr f) \<and>
           wrapElement_v1 h (objs ! k) = Inl e \<longrightarrow> nodeListToElements_v1 h v = Inl e) \<and>
        (k < length objs \<and> (\<forall>j<k. \<exists>f. wrapNode_legacy h (objs ! j) = Inr f) \<and>
           wrapNode_legacy h (objs ! k) = Inl e \<longrightarrow> nodeListToNodes_legacy h v = Inl e) \<and>
        (k < length objs \<and> (\<forall>j<k. \<exists>f. wrapElement_legacy h (objs ! j) = Inr f) \<and>
           wrapElement_legacy h (objs ! k) = Inl e \<longrightarrow>
             nodeListToElements_legacy h v = Inl e)) \<and>
   len (slice_of fs) = length fs \<and> to_list (slice_of fs) = fs \<and>
   (fs = [] \<longrightarrow> slice_of fs = NilSlice)"
proof (intro conjI impI)
  assume a: "props h (Ref r) ''constructor'' \<noteq> Global_Get h ''Array'' \<and>
      props h (Ref r) ''length'' = JNum (int (length objs)) \<and>
      (\<forall>k < length objs. item_of h (Ref r) (int k) = Some (objs ! k))"
  then have o: "nodeListToObjects h (Ref r) = Inr (slice_of objs)"
    by (simp add: nodeListToObjects_items)
  show "nodeListToNodes h (Ref r) = Inr (slice_of fs)"
    if "list_all2 (\<lambda>x f. wrapNode h x = Inr f) objs fs"
    using o wrap_range_all [OF that] by (simp add: nodeListToNodes_def)
  show "nodeListToElements h (Ref r) = Inr (slice_of fs)"
    if "list_all2 (\<lambda>x f. wrapElement h x = Inr f) objs fs"
    using o wrap_range_all [OF that] by (simp add: nodeListToElements_def)
  show "nodeListToNodes h (Ref r) = Inl e"
    if p: "k < length objs \<and> (\<forall>j<k. \<exists>f. wrapNode h (objs ! j) = Inr f) \<and>
           wrapNode h (objs ! k) = Inl e"
    using o wrap_range_panic [of k objs "wrapNode h" e NilSlice] p
    by (simp add: nodeListToNodes_def)
  show "nodeListToElements h (Ref r) = Inl e"
    if p: "k < length objs \<and> (\<forall>j<k. \<exists>f. wrapElement h (objs ! j) = Inr f) \<and>
           wrapElement h (objs ! k) = Inl e"
    using o wrap_range_panic [of k objs "wrapElement h" e NilSlice] p
    by (simp add: nodeListToElements_def)
next
  assume a: "props h (Ref r) ''constructor'' = Global_Get h ''Array'' \<and>
      props h (Ref r) ''length'' = JNum (int (length objs)) \<and>
      (\<forall>k < length objs. elems h (Ref r) (int k) = objs ! k)"
  then have o: "nodeListToObjects h (Ref r) = Inr (slice_of objs)"
    by (simp add: nodeListToObjects_array)
  show "nodeListToNodes h (Ref r) = Inr (slice_of fs)"
    if "list_all2 (\<lambda>x f. wrapNode h x = Inr f) objs fs"
    using o wrap_range_all [OF that] by (simp add: nodeListToNodes_def)
  show "nodeListToElements h (Ref r) = Inr (slice_of fs)"
    if "list_all2 (\<lambda>x f. wrapElement h x = Inr f) objs fs"
    using o wrap_range_all [OF that] by (simp add: nodeListToElements_def)
  show "nodeListToNodes h (Ref r) = Inl e"
    if p: "k < length objs \<and> (\<forall>j<k. \<exists>f. wrapNode h (objs ! j) = Inr f) \<and>
           wrapNode h (objs ! k) = Inl e"
    using o wrap_range_panic [of k objs "wrapNode h" e NilSlice] p
    by (simp add: nodeListToNodes_def)
  show "nodeListToElements h (Ref r) = Inl e"
    if p: "k < length objs \<and> (\<forall>j<k. \<exists>f. wrapElement h (objs ! j) = Inr f) \<and>
           wrapElement h (objs ! k) = Inl e"
    using o wrap_range_panic [of k objs "wrapElement h" e NilSlice] p
    by (simp add: nodeListToElements_def)
next
  assume a: "v \<noteq> Null \<and> v \<noteq> Undefined \<and> props h v ''length'' = JNum (int (length objs)) \<and>
      (\<forall>k < length objs. item_of h v (int k) = Some (objs ! k))"
  show "nodeListToNodes_v1 h v = Inr (slice_of fs)"
    if "list_all2 (\<lambda>x f. wrapNode_v1 h x = Inr f) objs fs"
    unfolding nodeListToNodes_v1_def using a that by (intro nodeList_v1_items) simp_all
  show "nodeListToElements_v1 h v = Inr (slice_of fs)"
    if "list_all2 (\<lambda>x f. wrapElement_v1 h x = Inr f) objs fs"
    unfolding nodeListToElements_v1_def using a that by (intro nodeList_v1_items) simp_all
  show "nodeListToNodes_legacy h v = Inr (slice_of fs)"
    if "list_all2 (\<lambda>x f. wrapNode_legacy h x = Inr f) objs fs"
    unfolding nodeListToNodes_legacy_def using a that by (intro nodeList_v1_items) simp_all
  show "nodeListToElements_legacy h v = Inr (slice_of fs)"
    if "list_all2 (\<lambda>x f. wrapElement_legacy h x = Inr f) objs fs"
    unfolding nodeListToElements_legacy_def using a that by (intro nodeList_v1_items) simp_all
  show "nodeListToNodes_v1 h v = Inl e"
    if p: "k < length objs \<and> (\<forall>j<k. \<exists>f. wrapNode_v1 h (objs ! j) = Inr f) \<and>
           wrapNode_v1 h (objs ! k) = Inl e"
    unfolding nodeListToNodes_v1_def using a p
    by (intro nodeList_v1_panic [of v h objs k]) simp_all
  show "nodeListToElements_v1 h v = Inl e"
    if p: "k < length objs \<and> (\<forall>j<k. \<exists>f. wrapElement_v1 h (objs ! j) = Inr f) \<and>
           wrapElement_v1 h (objs ! k) = Inl e"
    unfolding nodeListToElements_v1_def using a p
    by (intro nodeList_v1_panic [of v h objs k]) simp_all
  show "nodeListToNodes_legacy h v = Inl e"
    if p: "k < length objs \<and> (\<forall>j<k. \<exists>f. wrapNode_legacy h (objs ! j) = Inr f) \<and>
           wrapNode_legacy h (objs ! k) = Inl e"
    unfolding nodeListToNodes_legacy_def using a p
    by (intro nodeList_v1_panic [of v h objs k]) simp_all
  show "nodeListToElements_legacy h v = Inl e"
    if p: "k < length objs \<and> (\<forall>j<k. \<exists>f. wrapElement_legacy h (objs ! j) = Inr f) \<and>
           wrapElement_legacy h (objs ! k) = Inl e"
    unfolding nodeListToElements_legacy_def using a p
    by (intro nodeList_v1_panic [of v h objs k]) simp_all
next
  show "len (slice_of fs) = length fs" by simp
  show "to_list (slice_of fs) = fs" by simp
  show "slice_of fs = NilSlice" if "fs = []" using that by (simp add: slice_of_def)
qed

theorem nodeList_snapshot_witness:
  "nodeListToNodes demo_host (Ref 16) =
     Inr (Slice [Some (Concrete ''HTMLFormElement'' (Ref 11)),
                 Some (Concrete ''HTMLDivElement'' (Ref 12))]) \<and>
   nodeListToElements demo_host (Ref 17) =
     Inr (Slice [Some (Concrete ''HTMLFormElement'' (Ref 11)),
                 Some (Concrete ''HTMLDivElement'' (Ref 12))]) \<and>
   nodeListToNodes_v1 demo_host (Ref 16) =
     Inr (Slice [Some (Concrete ''HTMLFormElement'' (Ref 11)),
                 Some (Concrete ''HTMLDivElement'' (Ref 12))]) \<and>
   nodeListToElements_v1 demo_host (Ref 21) = Inl (UnsupportedElement ''<object>'')"
  using
    nodeList_snapshot
      [where h = demo_host and r = 16 and objs = "[Ref 11, Ref 12]" and v = "Ref 16"
         and fs = "[Some (Concrete ''HTMLFormElement'' (Ref 11)),
                    Some (Concrete ''HTMLDivElement'' (Ref 12))]"]
    nodeList_snapshot
      [where h = demo_host and r = 17 and objs = "[Ref 11, Ref 12]" and v = "Ref 16"
         and fs = "[Some (Concrete ''HTMLFormElement'' (Ref 11)),
                    Some (Concrete ''HTMLDivElement'' (Ref 12))]"]
    nodeList_snapshot
      [where h = demo_host and r = 21 and objs = "[Ref 15]" and v = "Ref 21" and k = 0
         and e = "UnsupportedElement ''<object>''"]
    demo_list_items demo_svg_list_items
  by (simp add: demo_lists demo_svg_list demo_Array demo_wrapNode demo_wrapElement_svg
      slice_of_def)

text \<open>
  The claim as it was stated fails in two ways. In \<^verbatim>\<open>src/unnamed/part_001\<close> and
  \<^verbatim>\<open>src/dom.go\<close> a collection of length 1 that holds an SVG element gives no sequence:
  wrapping the item reaches the \<^verbatim>\<open>"Unsupported HTML element type"\<close> panic. And in every
  version the result for a collection of length 0 is \<^verbatim>\<open>nil\<close>: \<^verbatim>\<open>var out []Node\<close> is
  \<^verbatim>\<open>nil\<close>, the loop body never runs, and \<^verbatim>\<open>out\<close> is returned as it is.
\<close>

theorem nodeList_panic_or_nil_counterexample:
  "nodeListToNodes_v1 demo_host (Ref 21) = Inl (UnsupportedElement ''<object>'') \<and>
   nodeListToNodes_legacy demo_host (Ref 21) = Inl (UnsupportedElement ''SVGSVGElement'') \<and>
   props demo_host (Ref 18) ''length'' = JNum 0 \<and>
   nodeListToNodes demo_host (Ref 18) = Inr NilSlice \<and>
   nodeListToElements demo_host (Ref 18) = Inr NilSlice \<and>
   nodeListToNodes_v1 demo_host (Ref 18) = Inr NilSlice \<and>
   nodeListToNodes_legacy demo_host (Ref 18) = Inr NilSlice"
proof -
  have p: "wrap_item_loop w demo_host (Ref 21) 0 1 NilSlice = Inl e"
    if "w (Ref 15) = Inl e" for w :: "jsval \<Rightarrow> panic + facade option" and e
    using that by (subst wrap_item_loop.simps) (simp add: demo_svg_list)
  have o: "nodeListToObjects demo_host (Ref 18) = Inr (slice_of [])"
    by (rule nodeListToObjects_items) (simp_all add: demo_lists demo_Array)
  have l: "wrap_item_loop w demo_host (Ref 18) 0 0 NilSlice = Inr NilSlice"
    for w :: "jsval \<Rightarrow> panic + facade option"
    by (subst wrap_item_loop.simps) simp
  show ?thesis
    using o l p [of "wrapNode_v1 demo_host", OF demo_wrapNode_svg(1)]
      p [of "wrapNode_legacy demo_host", OF demo_wrapNode_svg(2)]
    by (simp add: demo_lists demo_svg_list nodeListToNodes_def nodeListToElements_def
        nodeListToNodes_v1_def nodeListToNodes_legacy_def slice_of_def Int_gopherjs_def)
qed

section \<open>Registering and removing listeners\<close>

text \<open>
  In \<^verbatim>\<open>src/v2/dom_go113.go\<close> and \<^verbatim>\<open>src/unnamed/part_001\<close>, \<^verbatim>\<open>AddEventListener\<close>
  returns the identity of the function it registered, and \<^verbatim>\<open>RemoveEventListener\<close>
  with that identity restores the host's listeners to what they were; an event fired
  afterwards invokes exactly the listeners it would have invoked before. The identity
  is new when no registration of the host holds an identity the bindings have yet to
  create.
\<close>

lemma fire_loop_agree:
  assumes "\<forall>(t, ty, f, c) \<in> set rs. funcs w f = funcs w' f"
    and "hst w = hst w'" and "calls w = calls w'"
  shows "bnd (fire_loop w rs ev) (\<lambda>u. Inr (calls u)) = bnd (fire_loop w' rs ev) (\<lambda>u. Inr (calls u))"
  using assms
proof (induction rs arbitrary: w w')
  case Nil
  then show ?case by simp
next
  case (Cons p rs)
  obtain t ty f c where p: "p = (t, ty, f, c)" by (cases p)
  have ff: "funcs w f = funcs w' f" using Cons.prems(1) p by simp
  show ?case
  proof (cases "funcs w f")
    case None
    have "bnd (fire_loop w rs ev) (\<lambda>u. Inr (calls u)) =
          bnd (fire_loop w' rs ev) (\<lambda>u. Inr (calls u))"
      using Cons.prems p by (intro Cons.IH) auto
    then show ?thesis using None ff p by simp
  next
    case (Some body)
    show ?thesis
    proof (cases "body (hst w) ev")
      case (Inl e)
      then show ?thesis using Some ff p Cons.prems(2) by simp
    next
      case (Inr call)
      have "bnd (fire_loop (w\<lparr>calls := calls w @ [call]\<rparr>) rs ev) (\<lambda>u. Inr (calls u)) =
            bnd (fire_loop (w'\<lparr>calls := calls w' @ [call]\<rparr>) rs ev) (\<lambda>u. Inr (calls u))"
        using Cons.prems p by (intro Cons.IH) auto
      then show ?thesis using Some ff p Cons.prems(2) Inr by simp
    qed
  qed
qed

lemma removeAll_fresh: "x \<notin> set xs \<Longrightarrow> removeAll x (xs @ [x]) = xs"
  by (simp add: removeAll_id)

lemma AddEventListener_RemoveEventListener:
  assumes "\<forall>(t, ty, f, c) \<in> set (registry w). f < next_func w"
  shows "\<exists>wrapper w1 w2.
           AddEventListener w (Ref r) typ useCapture listener = Inr (wrapper, w1) \<and>
           (Ref r, typ, wrapper, useCapture) \<in> set (registry w1) \<and>
           RemoveEventListener w1 (Ref r) typ useCapture wrapper = Inr w2 \<and>
           registry w2 = registry w \<and> funcs w2 wrapper = None \<and>
           (\<forall>ev t ty. bnd (fire w2 t ty ev) (\<lambda>u. Inr (calls u)) = bnd (fire w t ty ev) (\<lambda>u. Inr (calls u)))"
proof -
  let ?f = "next_func w"
  let ?body = "\<lambda>h a. bnd (wrapEvent h a) (\<lambda>e. Inr (listener, e))"
  let ?w0 = "w\<lparr>funcs := (funcs w)(?f \<mapsto> ?body), next_func := ?f + 1\<rparr>"
  let ?w1 = "?w0\<lparr>registry := registry w @ [(Ref r, typ, ?f, useCapture)]\<rparr>"
  let ?w2 = "?w1\<lparr>registry := registry w, funcs := (funcs ?w1)(?f := None)\<rparr>"
  have fresh: "(Ref r, typ, ?f, useCapture) \<notin> set (registry w)"
    using assms by auto
  have add: "AddEventListener w (Ref r) typ useCapture listener = Inr (?f, ?w1)"
    using fresh by (simp add: AddEventListener_def new_func_def Call_addEventListener_def)
  have rem: "RemoveEventListener ?w1 (Ref r) typ useCapture ?f = Inr ?w2"
    using fresh by (simp add: RemoveEventListener_def Call_removeEventListener_def removeAll_id)
  have agree: "\<forall>(t, ty, f, c) \<in> set rs. funcs ?w2 f = funcs w f"
    if "set rs \<subseteq> set (registry w)" for rs
    using that assms by fastforce
  have fire: "bnd (fire ?w2 t ty ev) (\<lambda>u. Inr (calls u)) = bnd (fire w t ty ev) (\<lambda>u. Inr (calls u))" for ev t ty
    unfolding fire_def
    using agree [of "filter (\<lambda>(t', typ', f, c). t' = t \<and> typ' = ty) (registry w)"]
      fire_loop_agree [of "filter (\<lambda>(t', typ', f, c). t' = t \<and> typ' = ty) (registry w)" ?w2 w ev]
    by simp
  show ?thesis
    using add rem fire by (intro exI [of _ ?f] exI [of _ ?w1] exI [of _ ?w2]) simp
qed

lemma AddEventListener_v1_RemoveEventListener_v1:
  assumes "\<forall>(t, ty, f, c) \<in> set (registry w). f < next_func w"
  shows "\<exists>wrapper w1 w2.
           AddEventListener_v1 w (Ref r) typ useCapture listener = Inr (wrapper, w1) \<and>
           (Ref r, typ, wrapper, useCapture) \<in> set (registry w1) \<and>
           RemoveEventListener_v1 w1 (Ref r) typ useCapture wrapper = Inr w2 \<and>
           registry w2 = registry w \<and>
           (\<forall>ev t ty. bnd (fire w2 t ty ev) (\<lambda>u. Inr (calls u)) = bnd (fire w t ty ev) (\<lambda>u. Inr (calls u)))"
proof -
  let ?f = "next_func w"
  let ?body = "\<lambda>h a. bnd (wrapEvent_v1 h a) (\<lambda>e. Inr (listener, e))"
  let ?w0 = "w\<lparr>funcs := (funcs w)(?f \<mapsto> ?body), next_func := ?f + 1\<rparr>"
  let ?w1 = "?w0\<lparr>registry := registry w @ [(Ref r, typ, ?f, useCapture)]\<rparr>"
  let ?w2 = "?w1\<lparr>registry := registry w\<rparr>"
  have fresh: "(Ref r, typ, ?f, useCapture) \<notin> set (registry w)"
    using assms by auto
  have add: "AddEventListener_v1 w (Ref r) typ useCapture listener = Inr (?f, ?w1)"
    using fresh by (simp add: AddEventListener_v1_def new_func_def Call_addEventListener_def)
  have rem: "RemoveEventListener_v1 ?w1 (Ref r) typ useCapture ?f = Inr ?w2"
    using fresh by (simp add: RemoveEventListener_v1_def Call_removeEventListener_def removeAll_id)
  have agree: "\<forall>(t, ty, f, c) \<in> set rs. funcs ?w2 f = funcs w f"
    if "set rs \<subseteq> set (registry w)" for rs
    using that assms by fastforce
  have fire: "bnd (fire ?w2 t ty ev) (\<lambda>u. Inr (calls u)) = bnd (fire w t ty ev) (\<lambda>u. Inr (calls u))" for ev t ty
    unfolding fire_def
    using agree [of "filter (\<lambda>(t', typ', f, c). t' = t \<and> typ' = ty) (registry w)"]
      fire_loop_agree [of "filter (\<lambda>(t', typ', f, c). t' = t \<and> typ' = ty) (registry w)" ?w2 w ev]
    by simp
  show ?thesis
    using add rem fire by (intro exI [of _ ?f] exI [of _ ?w1] exI [of _ ?w2]) simp
qed

text \<open>
  Claim C3: the identity that \<^verbatim>\<open>AddEventListener\<close> returns removes the registration,
  so that the caller's listener is not invoked by a later event. \<^verbatim>\<open>src/dom.go\<close> does
  not do this. Its \<^verbatim>\<open>AddEventListener\<close> returns nothing, and its
  \<^verbatim>\<open>RemoveEventListener\<close> hands the host a function literal evaluated anew, which the
  host has never seen: after adding listener 7 for \<^verbatim>\<open>click\<close> on the form and removing
  it, a click on the form still invokes listener 7, once, with the mouse event.
\<close>

theorem legacy_RemoveEventListener_removes_nothing:
  "bnd (AddEventListener_legacy demo_world (Ref 11) ''click'' False 7) (\<lambda>w1.
     bnd (RemoveEventListener_legacy w1 (Ref 11) ''click'' False 7) (\<lambda>w2.
       bnd (fire w2 (Ref 11) ''click'' (Ref 19)) (\<lambda>w3. Inr (calls w3))))
   = Inr [(7, Some (ConcreteEvent ''MouseEvent'' (Ref 19)))]"
  by (simp add: AddEventListener_legacy_def RemoveEventListener_legacy_def new_func_def
      Call_addEventListener_def Call_removeEventListener_def fire_def demo_world_def demo_click)

end
